theory Spec2Isabelle
  imports Complex_Main
begin

section \<open>Conventions of the embedding\<close>

text \<open>
  The pipeline is Python. Its values are modelled as follows.
  \<^item> A \<open>datetime\<close> is the integer number of microseconds since 1970-01-01 00:00:00
    (the resolution of \<open>datetime\<close>); a \<open>timedelta\<close> is an integer number of microseconds.
  \<^item> A Python \<open>float\<close> that is only stored and copied is a value of a type variable.
    Where the code computes with floats the model computes with \<open>real\<close>: the arithmetic is
    exact, the rounding of binary64 is not modelled. A pandas \<open>NaN\<close> is \<open>None\<close> of
    \<open>real option\<close>.
  \<^item> A raised exception is the \<open>Inl\<close> of a sum type.
\<close>

type_synonym datetime = int
type_synonym timedelta = int

section \<open>Alert engine: \<open>AlertEngine._evaluate_condition\<close>\<close>

definition evaluate_condition :: "real \<Rightarrow> string \<Rightarrow> real \<Rightarrow> bool" where
  "evaluate_condition val condition threshold =
     (if condition = ''>'' then val > threshold
      else if condition = ''<'' then val < threshold
      else if condition = ''>='' then val \<ge> threshold
      else if condition = ''<='' then val \<le> threshold
      else if condition = ''=='' then \<bar>val - threshold\<bar> < 1 / 10000
      else False)"

section \<open>Storage: the \<open>ohlc\<close> table and \<open>Database.insert_ohlc\<close>\<close>

text \<open>
  A row of the table \<open>ohlc\<close> (class \<open>OHLC\<close> of models.py). The column \<open>id\<close> is the integer
  primary key, \<open>created_at\<close> is filled from the clock when the row is inserted.
\<close>

record 'v ohlc_row =
  row_id :: nat
  row_symbol :: string
  row_timeframe :: string
  row_timestamp :: datetime
  row_open :: 'v
  row_high :: 'v
  row_low :: 'v
  row_close :: 'v
  row_volume :: 'v
  row_trade_count :: int
  row_created_at :: datetime

text \<open>
  The dictionary \<open>ohlc_data\<close> handed to \<open>insert_ohlc\<close>. The key \<open>trade_count\<close> is read
  with \<open>.get('trade_count', 0)\<close>, so it may be absent.
\<close>

record 'v ohlc_data =
  od_symbol :: string
  od_timeframe :: string
  od_timestamp :: datetime
  od_open :: 'v
  od_high :: 'v
  od_low :: 'v
  od_close :: 'v
  od_volume :: 'v
  od_trade_count :: "int option"

datatype db_error = MultipleResultsFound

type_synonym candle_key = "string \<times> string \<times> datetime"

definition row_key :: "'v ohlc_row \<Rightarrow> candle_key" where
  "row_key r = (row_symbol r, row_timeframe r, row_timestamp r)"

definition data_key :: "'v ohlc_data \<Rightarrow> candle_key" where
  "data_key d = (od_symbol d, od_timeframe d, od_timestamp d)"

text \<open>The constraint \<open>UniqueConstraint('symbol', 'timeframe', 'timestamp', name='uix_ohlc')\<close>.\<close>

definition uix_ohlc :: "'v ohlc_row list \<Rightarrow> bool" where
  "uix_ohlc rows = distinct (map row_key rows)"

text \<open>The table as the database keeps it: the primary key and \<open>uix_ohlc\<close> both hold.\<close>

definition ohlc_table :: "'v ohlc_row list \<Rightarrow> bool" where
  "ohlc_table rows = (distinct (map row_id rows) \<and> uix_ohlc rows)"

text \<open>\<open>Result.scalar_one_or_none\<close>: no row, the one row, or the exception for several.\<close>

fun scalar_one_or_none :: "'a list \<Rightarrow> db_error + 'a option" where
  "scalar_one_or_none [] = Inr None"
| "scalar_one_or_none [x] = Inr (Some x)"
| "scalar_one_or_none (x # y # zs) = Inl MultipleResultsFound"

text \<open>The assignments of the branch \<open>if existing:\<close>, on the selected row.\<close>

definition update_existing :: "'v ohlc_data \<Rightarrow> 'v ohlc_row \<Rightarrow> 'v ohlc_row" where
  "update_existing d r =
     r\<lparr>row_open := od_open d, row_high := od_high d, row_low := od_low d,
       row_close := od_close d, row_volume := od_volume d,
       row_trade_count := (case od_trade_count d of None \<Rightarrow> 0 | Some n \<Rightarrow> n)\<rparr>"

text \<open>
  \<open>OHLC(**ohlc_data)\<close> followed by \<open>session.add\<close>: the new row takes the next integer
  key, the column default \<open>0\<close> for a missing \<open>trade_count\<close>, and the clock for \<open>created_at\<close>.
\<close>

definition next_id :: "'v ohlc_row list \<Rightarrow> nat" where
  "next_id rows = Suc (fold max (map row_id rows) 0)"

definition new_row :: "'v ohlc_data \<Rightarrow> datetime \<Rightarrow> nat \<Rightarrow> 'v ohlc_row" where
  "new_row d now i =
     \<lparr>row_id = i, row_symbol = od_symbol d, row_timeframe = od_timeframe d,
      row_timestamp = od_timestamp d, row_open = od_open d, row_high = od_high d,
      row_low = od_low d, row_close = od_close d, row_volume = od_volume d,
      row_trade_count = (case od_trade_count d of None \<Rightarrow> 0 | Some n \<Rightarrow> n),
      row_created_at = now\<rparr>"

definition insert_ohlc ::
  "'v ohlc_data \<Rightarrow> datetime \<Rightarrow> 'v ohlc_row list \<Rightarrow> db_error + 'v ohlc_row list" where
  "insert_ohlc d now rows =
     (case scalar_one_or_none (filter (\<lambda>r. row_key r = data_key d) rows) of
        Inl e \<Rightarrow> Inl e
      | Inr (Some existing) \<Rightarrow>
          Inr (map (\<lambda>r. if row_id r = row_id existing then update_existing d r else r) rows)
      | Inr None \<Rightarrow> Inr (rows @ [new_row d now (next_id rows)]))"

text \<open>A stored row carries the key and the six value fields of \<open>ohlc_data\<close>.\<close>

definition holds_data :: "'v ohlc_data \<Rightarrow> 'v ohlc_row \<Rightarrow> bool" where
  "holds_data d r =
     (row_key r = data_key d \<and> row_open r = od_open d \<and> row_high r = od_high d \<and>
      row_low r = od_low d \<and> row_close r = od_close d \<and> row_volume r = od_volume d \<and>
      row_trade_count r = (case od_trade_count d of None \<Rightarrow> 0 | Some n \<Rightarrow> n))"


section \<open>Resampling engine: timeframes and candle boundaries\<close>

text \<open>
  The exceptions the code can raise. \<open>PandasError\<close> stands for any exception of the
  pandas calls, \<open>DbError\<close> for one of the storage upsert.
\<close>

datatype py_error =
  IndexError | ValueError | OverflowError | ZeroDivisionError | KeyError | TypeError
  | AttributeError | JSONDecodeError | PandasError | DbError db_error

text \<open>
  The builtin \<open>int(s)\<close> on a string: surrounding whitespace is dropped, a sign may lead,
  and the digits may be separated by single underscores. ASCII only.
\<close>

definition digit_of :: "char \<Rightarrow> int option" where
  "digit_of c = map_of [(CHR ''0'', 0), (CHR ''1'', 1), (CHR ''2'', 2), (CHR ''3'', 3),
     (CHR ''4'', 4), (CHR ''5'', 5), (CHR ''6'', 6), (CHR ''7'', 7), (CHR ''8'', 8),
     (CHR ''9'', 9)] c"

definition is_space :: "char \<Rightarrow> bool" where
  "is_space c = (c \<in> set [CHR '' '', CHR 0x09, CHR 0x0A, CHR 0x0B, CHR 0x0C, CHR 0x0D])"

fun digits_value :: "int \<Rightarrow> string \<Rightarrow> int option" where
  "digits_value acc [] = Some acc"
| "digits_value acc (c # cs) =
     (case digit_of c of
        Some v \<Rightarrow> digits_value (10 * acc + v) cs
      | None \<Rightarrow>
          (if c = CHR ''_'' then
             (case cs of [] \<Rightarrow> None
              | d # ds \<Rightarrow> (if digit_of d = None then None else digits_value acc cs))
           else None))"

definition unsigned_int :: "string \<Rightarrow> int option" where
  "unsigned_int s =
     (case s of [] \<Rightarrow> None
      | c # cs \<Rightarrow> (if digit_of c = None then None else digits_value 0 s))"

definition py_int :: "string \<Rightarrow> py_error + int" where
  "py_int s =
     (let t = rev (dropWhile is_space (rev (dropWhile is_space s)));
          r = (case t of [] \<Rightarrow> None
               | c # cs \<Rightarrow> if c = CHR ''-'' then map_option uminus (unsigned_int cs)
                          else if c = CHR ''+'' then unsigned_int cs
                          else unsigned_int t)
      in case r of None \<Rightarrow> Inl ValueError | Some v \<Rightarrow> Inr v)"

text \<open>
  The constructor \<open>timedelta(...)\<close>: the number of days of the normalised value must lie
  within \<open>\<plusminus>999999999\<close>, otherwise \<open>OverflowError\<close>.
\<close>

definition timedelta_of_microseconds :: "int \<Rightarrow> py_error + timedelta" where
  "timedelta_of_microseconds us =
     (if \<bar>us div 86400000000\<bar> > 999999999 then Inl OverflowError else Inr us)"

text \<open>\<open>ResamplingEngine._parse_timeframe\<close>.\<close>

definition parse_timeframe :: "string \<Rightarrow> py_error + timedelta" where
  "parse_timeframe timeframe =
     (if timeframe = [] then Inl IndexError
      else let unit = last timeframe in
        case py_int (butlast timeframe) of
          Inl e \<Rightarrow> Inl e
        | Inr v \<Rightarrow>
            if unit = CHR ''s'' then timedelta_of_microseconds (v * 1000000)
            else if unit = CHR ''m'' then timedelta_of_microseconds (v * 60 * 1000000)
            else if unit = CHR ''h'' then timedelta_of_microseconds (v * 3600 * 1000000)
            else Inl ValueError)"

text \<open>
  \<open>timedelta.total_seconds()\<close>, the truncation of \<open>int(x)\<close> on a float, and
  \<open>timedelta(seconds=x)\<close>, which rounds to the nearest microsecond, ties to even.
\<close>

definition total_seconds :: "timedelta \<Rightarrow> real" where
  "total_seconds d = of_int d / 1000000"

definition py_int_of_float :: "real \<Rightarrow> int" where
  "py_int_of_float x = (if x \<ge> 0 then \<lfloor>x\<rfloor> else \<lceil>x\<rceil>)"

definition round_half_even :: "real \<Rightarrow> int" where
  "round_half_even x =
     (let f = \<lfloor>x\<rfloor>; r = x - of_int f
      in if r < 1 / 2 then f else if r > 1 / 2 then f + 1 else if even f then f else f + 1)"

definition timedelta_seconds :: "real \<Rightarrow> timedelta" where
  "timedelta_seconds s = round_half_even (s * 1000000)"

text \<open>
  \<open>ResamplingEngine._get_candle_timestamp\<close>. The division of two floats raises
  \<open>ZeroDivisionError\<close> on a zero divisor.
\<close>

definition get_candle_timestamp :: "datetime \<Rightarrow> string \<Rightarrow> py_error + datetime" where
  "get_candle_timestamp timestamp timeframe =
     (case parse_timeframe timeframe of
        Inl e \<Rightarrow> Inl e
      | Inr delta \<Rightarrow>
          (let epoch = 0;
               seconds_since_epoch = total_seconds (timestamp - epoch);
               candle_seconds = total_seconds delta
           in if candle_seconds = 0 then Inl ZeroDivisionError
              else let floored_seconds =
                         of_int (py_int_of_float (seconds_since_epoch / candle_seconds))
                           * candle_seconds
                   in Inr (epoch + timedelta_seconds floored_seconds)))"

section \<open>Storage: the \<open>ticks\<close> table and \<open>Database.get_ticks\<close>\<close>

text \<open>
  A tick as the pipeline passes it around. The table is the list of its rows in insertion
  order; \<open>ORDER BY timestamp DESC\<close> is the reverse of a stable ascending sort.
\<close>

record 'v tick =
  tick_symbol :: string
  tick_timestamp :: datetime
  tick_price :: 'v
  tick_size :: 'v

definition in_window :: "datetime option \<Rightarrow> datetime option \<Rightarrow> datetime \<Rightarrow> bool" where
  "in_window start_time end_time t =
     ((case start_time of None \<Rightarrow> True | Some s \<Rightarrow> t \<ge> s) \<and>
      (case end_time of None \<Rightarrow> True | Some e \<Rightarrow> t \<le> e))"

definition get_ticks ::
  "'v tick list \<Rightarrow> string \<Rightarrow> datetime option \<Rightarrow> datetime option \<Rightarrow> nat \<Rightarrow> 'v tick list" where
  "get_ticks table symbol start_time end_time limit =
     rev (take limit (rev (sort_key tick_timestamp
       (filter (\<lambda>t. tick_symbol t = symbol \<and> in_window start_time end_time (tick_timestamp t))
          table))))"

section \<open>Cache: the Redis list commands and \<open>RedisCache\<close>\<close>

text \<open>
  The Redis server is outside the repository. Its list commands are modelled on their
  documented behaviour: a key holds a list (an absent key is the empty list) and may carry
  a deadline after which it is gone; \<open>LRANGE\<close> and \<open>LTRIM\<close> take inclusive indices,
  negative ones counting from the end. Values are stored as they are: the round trip
  through \<open>json.dumps\<close> and \<open>json.loads\<close> is the identity on the ticks pushed.
  A failing connection is not modelled.
\<close>

record 'a redis =
  lists :: "string \<Rightarrow> 'a list"
  expiry :: "string \<Rightarrow> datetime option"

definition redis_expired :: "'a redis \<Rightarrow> datetime \<Rightarrow> string \<Rightarrow> bool" where
  "redis_expired r now key = (case expiry r key of None \<Rightarrow> False | Some d \<Rightarrow> now \<ge> d)"

definition redis_live :: "'a redis \<Rightarrow> datetime \<Rightarrow> string \<Rightarrow> 'a list" where
  "redis_live r now key = (if redis_expired r now key then [] else lists r key)"

definition redis_range :: "'a list \<Rightarrow> int \<Rightarrow> int \<Rightarrow> 'a list" where
  "redis_range xs start stop =
     (let n = int (length xs);
          s = (if start < 0 then max 0 (n + start) else start);
          e = (if stop < 0 then n + stop else min stop (n - 1))
      in if s > e \<or> s \<ge> n then [] else take (nat (e - s + 1)) (drop (nat s) xs))"

definition lpush :: "'a redis \<Rightarrow> datetime \<Rightarrow> string \<Rightarrow> 'a \<Rightarrow> 'a redis" where
  "lpush r now key v =
     r\<lparr>lists := (lists r)(key := v # redis_live r now key),
       expiry := (if redis_expired r now key then (expiry r)(key := None) else expiry r)\<rparr>"

definition ltrim :: "'a redis \<Rightarrow> datetime \<Rightarrow> string \<Rightarrow> int \<Rightarrow> int \<Rightarrow> 'a redis" where
  "ltrim r now key start stop =
     r\<lparr>lists := (lists r)(key := redis_range (redis_live r now key) start stop),
       expiry := (if redis_expired r now key then (expiry r)(key := None) else expiry r)\<rparr>"

definition lrange :: "'a redis \<Rightarrow> datetime \<Rightarrow> string \<Rightarrow> int \<Rightarrow> int \<Rightarrow> 'a list" where
  "lrange r now key start stop = redis_range (redis_live r now key) start stop"

definition expire :: "'a redis \<Rightarrow> datetime \<Rightarrow> string \<Rightarrow> int \<Rightarrow> 'a redis" where
  "expire r now key seconds =
     (if redis_live r now key = [] then r
      else r\<lparr>expiry := (expiry r)(key := Some (now + seconds * 1000000))\<rparr>)"

text \<open>
  \<open>RedisCache\<close>: the flag \<open>enabled\<close> and the client, \<open>None\<close> until connected.
  The clock of the server is the extra argument \<open>now\<close>.
\<close>

record 'a redis_cache =
  enabled :: bool
  client :: "'a redis option"

definition push_tick :: "'a redis_cache \<Rightarrow> datetime \<Rightarrow> string \<Rightarrow> 'a \<Rightarrow> int \<Rightarrow> 'a redis_cache" where
  "push_tick c now symbol tick max_size =
     (case client c of
        None \<Rightarrow> c
      | Some r \<Rightarrow>
          if \<not> enabled c then c
          else let key = ''ticks:'' @ symbol;
                   r1 = lpush r now key tick;
                   r2 = ltrim r1 now key 0 (max_size - 1);
                   r3 = expire r2 now key 3600
               in c\<lparr>client := Some r3\<rparr>)"

definition get_recent_ticks :: "'a redis_cache \<Rightarrow> datetime \<Rightarrow> string \<Rightarrow> int \<Rightarrow> 'a list" where
  "get_recent_ticks c now symbol count =
     (case client c of
        None \<Rightarrow> []
      | Some r \<Rightarrow>
          if \<not> enabled c then []
          else let key = ''ticks:'' @ symbol;
                   ticks = lrange r now key 0 (count - 1)
               in rev ticks)"

text \<open>
  A run of the ingestion callback: ticks pushed one after the other, each at its time, with
  the default \<open>max_size\<close>. \<open>within_ttl\<close> says that the times do not decrease and that no
  gap reaches the hour after which the key expires.
\<close>

fun push_ticks :: "'a redis_cache \<Rightarrow> string \<Rightarrow> (datetime \<times> 'a) list \<Rightarrow> 'a redis_cache" where
  "push_ticks c symbol [] = c"
| "push_ticks c symbol ((now, tick) # rest) = push_ticks (push_tick c now symbol tick 1000) symbol rest"

fun within_ttl :: "datetime \<Rightarrow> datetime list \<Rightarrow> bool" where
  "within_ttl t0 [] = True"
| "within_ttl t0 (t # ts) = (t0 \<le> t \<and> t < t0 + 3600000000 \<and> within_ttl t ts)"

definition three_ticks :: "(datetime \<times> nat) list" where
  "three_ticks = [(0, 1), (5, 2), (7, 3)]"

definition fresh_cache :: "'a redis_cache" where
  "fresh_cache = \<lparr>enabled = True, client = Some \<lparr>lists = (\<lambda>k. []), expiry = (\<lambda>k. None)\<rparr>\<rparr>"

section \<open>Resampling engine: one cycle of \<open>_resample_symbol_timeframe\<close>\<close>

text \<open>
  What the three pandas calls \<open>resample(timeframe).ohlc()\<close>, \<open>.sum()\<close> and \<open>.count()\<close>
  return: the rows of the OHLC frame in the order of its index, each with its label and
  the four prices, and the two series by label. The pandas library is outside the
  repository, so the resampling itself is a parameter \<open>resample\<close> of the cycle, which
  may also raise.
\<close>

record 'v resampled =
  rs_ohlc :: "(datetime \<times> 'v \<times> 'v \<times> 'v \<times> 'v) list"
  rs_volume :: "datetime \<Rightarrow> 'v option"
  rs_trade_count :: "datetime \<Rightarrow> int option"

text \<open>
  The engine keeps \<open>running\<close> and, per key \<open>symbol_timeframe\<close>, the \<open>timestamp\<close> entry
  of \<open>current_candles\<close>. The storage is the cache and the two tables. A cycle reads the
  clock four times: at the cache, for the window of the fallback query, for \<open>now\<close>, and
  at the commit of the upsert.
\<close>

record resampling_engine =
  re_running :: bool
  current_candles :: "string \<Rightarrow> datetime option"

record 'v storage =
  cache :: "'v tick redis_cache"
  db_ticks :: "'v tick list"
  db_ohlc :: "'v ohlc_row list"

record cycle_clock =
  clk_cache :: datetime
  clk_fallback :: datetime
  clk_now :: datetime
  clk_commit :: datetime

text \<open>The ticks of a cycle: the cache first, the last hour of the table when it is empty.\<close>

definition recent_ticks ::
  "'v storage \<Rightarrow> cycle_clock \<Rightarrow> string \<Rightarrow> 'v tick list" where
  "recent_ticks st clk symbol =
     (let ticks = get_recent_ticks (cache st) (clk_cache clk) symbol 1000
      in if ticks = []
         then get_ticks (db_ticks st) symbol (Some (clk_fallback clk - 3600000000))
                (Some (clk_fallback clk)) 1000
         else ticks)"

text \<open>The dictionary \<open>ohlc_data\<close> built from the latest complete row.\<close>

definition candle_data ::
  "string \<Rightarrow> string \<Rightarrow> ('v::zero) resampled \<Rightarrow> datetime \<times> 'v \<times> 'v \<times> 'v \<times> 'v \<Rightarrow> 'v ohlc_data" where
  "candle_data symbol timeframe rs latest =
     (let candle_time = fst latest
      in \<lparr>od_symbol = symbol, od_timeframe = timeframe, od_timestamp = candle_time,
          od_open = fst (snd latest),
          od_high = fst (snd (snd latest)),
          od_low = fst (snd (snd (snd latest))),
          od_close = snd (snd (snd (snd latest))),
          od_volume = (case rs_volume rs candle_time of Some v \<Rightarrow> v | None \<Rightarrow> 0),
          od_trade_count =
            Some (case rs_trade_count rs candle_time of Some n \<Rightarrow> n | None \<Rightarrow> 0)\<rparr>)"

text \<open>
  The body of the \<open>try\<close> block. An exception leaves before any write, so it is \<open>Inl\<close>
  with no state.
\<close>

definition resample_body ::
  "('v tick list \<Rightarrow> string \<Rightarrow> py_error + ('v::zero) resampled) \<Rightarrow> string \<Rightarrow> string \<Rightarrow>
   cycle_clock \<Rightarrow> resampling_engine \<times> 'v storage \<Rightarrow> py_error + resampling_engine \<times> 'v storage" where
  "resample_body resample symbol timeframe clk s =
     (let eng = fst s; st = snd s; ticks = recent_ticks st clk symbol
      in if ticks = [] then Inr s
         else case resample ticks timeframe of
           Inl e \<Rightarrow> Inl e
         | Inr rs \<Rightarrow>
            (case get_candle_timestamp (clk_now clk) timeframe of
               Inl e \<Rightarrow> Inl e
             | Inr boundary \<Rightarrow>
                (let complete_candles = filter (\<lambda>row. fst row < boundary) (rs_ohlc rs)
                 in if complete_candles = [] then Inr s
                    else let latest = last complete_candles;
                             candle_time = fst latest;
                             key = symbol @ ''_'' @ timeframe;
                             last_candle_time = current_candles eng key
                         in if last_candle_time \<noteq> Some candle_time
                            then case insert_ohlc (candle_data symbol timeframe rs latest)
                                        (clk_commit clk) (db_ohlc st) of
                                   Inl e \<Rightarrow> Inl (DbError e)
                                 | Inr rows \<Rightarrow>
                                     Inr (eng\<lparr>current_candles :=
                                               (current_candles eng)(key := Some candle_time)\<rparr>,
                                          st\<lparr>db_ohlc := rows\<rparr>)
                            else Inr s)))"

text \<open>One iteration: \<open>except Exception\<close> logs the error and the loop goes on.\<close>

definition resample_cycle ::
  "('v tick list \<Rightarrow> string \<Rightarrow> py_error + ('v::zero) resampled) \<Rightarrow> string \<Rightarrow> string \<Rightarrow>
   cycle_clock \<Rightarrow> resampling_engine \<times> 'v storage \<Rightarrow> resampling_engine \<times> 'v storage" where
  "resample_cycle resample symbol timeframe clk s =
     (case resample_body resample symbol timeframe clk s of Inl e \<Rightarrow> s | Inr s' \<Rightarrow> s')"

text \<open>
  The loop \<open>while self.running\<close>, run for as many iterations as there are clock readings.
  The timeframe is parsed before the loop, outside the \<open>try\<close>.
\<close>

fun resample_cycles ::
  "('v tick list \<Rightarrow> string \<Rightarrow> py_error + ('v::zero) resampled) \<Rightarrow> string \<Rightarrow> string \<Rightarrow>
   cycle_clock list \<Rightarrow> resampling_engine \<times> 'v storage \<Rightarrow> resampling_engine \<times> 'v storage" where
  "resample_cycles resample symbol timeframe [] s = s"
| "resample_cycles resample symbol timeframe (clk # clks) s =
     (if re_running (fst s)
      then resample_cycles resample symbol timeframe clks
             (resample_cycle resample symbol timeframe clk s)
      else s)"

definition resample_symbol_timeframe ::
  "('v tick list \<Rightarrow> string \<Rightarrow> py_error + ('v::zero) resampled) \<Rightarrow> string \<Rightarrow> string \<Rightarrow>
   cycle_clock list \<Rightarrow> resampling_engine \<times> 'v storage \<Rightarrow> py_error + resampling_engine \<times> 'v storage" where
  "resample_symbol_timeframe resample symbol timeframe clks s =
     (case parse_timeframe timeframe of
        Inl e \<Rightarrow> Inl e
      | Inr delta \<Rightarrow> Inr (resample_cycles resample symbol timeframe clks s))"

text \<open>
  An example: two ticks of one instrument in the table, the cache disabled, frames for the
  minutes starting at 0 s and at 60 s, and a cycle at 90.5 s.
\<close>

definition example_frames :: "real tick list \<Rightarrow> string \<Rightarrow> py_error + real resampled" where
  "example_frames ticks timeframe =
     Inr \<lparr>rs_ohlc = [(0, 1, 3, 1, 2), (60000000, 2, 2, 2, 2)],
          rs_volume = (\<lambda>t. if t = 0 then Some 5 else if t = 60000000 then Some 1 else None),
          rs_trade_count = (\<lambda>t. if t = 0 then Some 3 else if t = 60000000 then Some 1 else None)\<rparr>"

definition example_storage :: "real storage" where
  "example_storage =
     \<lparr>cache = \<lparr>enabled = False, client = None\<rparr>,
      db_ticks = [\<lparr>tick_symbol = ''btcusdt'', tick_timestamp = 30000000, tick_price = 1,
                   tick_size = 5\<rparr>,
                  \<lparr>tick_symbol = ''btcusdt'', tick_timestamp = 70000000, tick_price = 2,
                   tick_size = 1\<rparr>],
      db_ohlc = []\<rparr>"

definition example_clock :: cycle_clock where
  "example_clock =
     \<lparr>clk_cache = 90000000, clk_fallback = 90100000, clk_now = 90500000,
      clk_commit = 90600000\<rparr>"

definition example_engine :: resampling_engine where
  "example_engine = \<lparr>re_running = True, current_candles = (\<lambda>k. None)\<rparr>"

section \<open>Ingestion: \<open>BinanceWebSocketClient\<close>\<close>

text \<open>
  A decoded JSON value as \<open>json.loads\<close> returns it; an object keeps the last value of a
  repeated key. A message that is not JSON is \<open>None\<close>.
\<close>

datatype json =
  JNull | JBool bool | JInt int | JFloat real | JStr string | JArr "json list"
  | JObj "(string \<times> json) list"

definition dict_get :: "(string \<times> json) list \<Rightarrow> string \<Rightarrow> json option" where
  "dict_get kvs k = map_of (rev kvs) k"

text \<open>
  The values Python divides and converts as numbers (a \<open>bool\<close> is an \<open>int\<close>), and the
  builtin \<open>float(v)\<close>: on a string it parses, which is the parameter \<open>float_of_string\<close>.
\<close>

definition json_number :: "json \<Rightarrow> real option" where
  "json_number v =
     (case v of JInt n \<Rightarrow> Some (of_int n) | JFloat x \<Rightarrow> Some x
      | JBool b \<Rightarrow> Some (if b then 1 else 0) | _ \<Rightarrow> None)"

definition py_float :: "(string \<Rightarrow> real option) \<Rightarrow> json \<Rightarrow> py_error + real" where
  "py_float float_of_string v =
     (case v of
        JStr s \<Rightarrow> (case float_of_string s of None \<Rightarrow> Inl ValueError | Some x \<Rightarrow> Inr x)
      | _ \<Rightarrow> (case json_number v of None \<Rightarrow> Inl TypeError | Some x \<Rightarrow> Inr x))"

text \<open>\<open>str.lower()\<close>, on ASCII letters.\<close>

definition lower_char :: "char \<Rightarrow> char" where
  "lower_char c =
     (case map_of (zip ''ABCDEFGHIJKLMNOPQRSTUVWXYZ'' ''abcdefghijklmnopqrstuvwxyz'') c of
        Some l \<Rightarrow> l | None \<Rightarrow> c)"

definition lower :: "string \<Rightarrow> string" where
  "lower s = map lower_char s"

text \<open>
  \<open>datetime.fromtimestamp(x)\<close> without a time zone: the naive local time of the host.
  The offset of the host's zone from UTC at an instant is the parameter \<open>utcoffset\<close>.
  The argument is rounded to the microsecond, and the result must be a year from 1 to 9999.
\<close>

definition datetime_min :: datetime where
  "datetime_min = - 62135596800000000"

definition datetime_max :: datetime where
  "datetime_max = 253402300799999999"

definition fromtimestamp :: "(datetime \<Rightarrow> timedelta) \<Rightarrow> real \<Rightarrow> py_error + datetime" where
  "fromtimestamp utcoffset x =
     (let utc = round_half_even (x * 1000000);
          local = utc + utcoffset utc
      in if local < datetime_min \<or> datetime_max < local then Inl ValueError else Inr local)"

text \<open>\<open>BinanceWebSocketClient._normalize_tick\<close>.\<close>

definition normalize_tick ::
  "(string \<Rightarrow> real option) \<Rightarrow> (datetime \<Rightarrow> timedelta) \<Rightarrow> (string \<times> json) list \<Rightarrow>
   py_error + real tick" where
  "normalize_tick float_of_string utcoffset raw_data =
     (case json_number
             (case dict_get raw_data ''T'' of
                Some v \<Rightarrow> v
              | None \<Rightarrow> (case dict_get raw_data ''E'' of Some v \<Rightarrow> v | None \<Rightarrow> JNull)) of
        None \<Rightarrow> Inl TypeError
      | Some ms \<Rightarrow>
         (case fromtimestamp utcoffset (ms / 1000) of
            Inl e \<Rightarrow> Inl e
          | Inr timestamp \<Rightarrow>
             (case dict_get raw_data ''s'' of
                None \<Rightarrow> Inl KeyError
              | Some (JStr s) \<Rightarrow>
                 (case dict_get raw_data ''p'' of
                    None \<Rightarrow> Inl KeyError
                  | Some p \<Rightarrow>
                     (case py_float float_of_string p of
                        Inl e \<Rightarrow> Inl e
                      | Inr price \<Rightarrow>
                         (case dict_get raw_data ''q'' of
                            None \<Rightarrow> Inl KeyError
                          | Some q \<Rightarrow>
                             (case py_float float_of_string q of
                                Inl e \<Rightarrow> Inl e
                              | Inr qty \<Rightarrow>
                                  Inr \<lparr>tick_symbol = lower s, tick_timestamp = timestamp,
                                       tick_price = price, tick_size = qty\<rparr>))))
              | Some _ \<Rightarrow> Inl AttributeError)))"

text \<open>
  The \<open>try\<close> block of the message loop, up to the callback: \<open>Inr (Some tick)\<close> when
  \<open>on_tick\<close> is called with \<open>tick\<close>, \<open>Inr None\<close> when the message is not a trade, and
  \<open>Inl\<close> for the exception that is logged.
\<close>

definition process_message ::
  "(string \<Rightarrow> real option) \<Rightarrow> (datetime \<Rightarrow> timedelta) \<Rightarrow> json option \<Rightarrow>
   py_error + real tick option" where
  "process_message float_of_string utcoffset message =
     (case message of
        None \<Rightarrow> Inl JSONDecodeError
      | Some (JObj data) \<Rightarrow>
          if dict_get data ''e'' = Some (JStr ''trade'')
          then (case normalize_tick float_of_string utcoffset data of
                  Inl e \<Rightarrow> Inl e | Inr tick \<Rightarrow> Inr (Some tick))
          else Inr None
      | Some _ \<Rightarrow> Inl AttributeError)"

text \<open>
  The client: the tracked symbols, the flag \<open>running\<close>, the keys of \<open>connections\<close>, and
  the ticks handed to \<open>on_tick\<close> so far. The task of one symbol is in one of three
  phases and keeps its \<open>reconnect_delay\<close>; \<open>slept\<close> records the delays it has slept.
  \<open>_connect_symbol\<close> is driven by what the network does: a connection attempt fails or
  opens, a message arrives, the connection ends.
\<close>

record ws_client =
  symbols :: "string list"
  ws_running :: bool
  connections :: "string list"
  delivered :: "real tick list"

datatype phase = Connecting | Streaming | Exited

record ws_task =
  task_phase :: phase
  reconnect_delay :: nat
  slept :: "nat list"

datatype ws_event = ConnectFailed | ConnectOpened | Received "json option" | ConnectionLost

text \<open>
  After the \<open>async with\<close> block: the connection is dropped from \<open>connections\<close>; while
  \<open>running\<close> the task sleeps and doubles the delay up to 60, otherwise the loop ends.
\<close>

definition cleanup_and_backoff :: "string \<Rightarrow> ws_client \<times> ws_task \<Rightarrow> ws_client \<times> ws_task" where
  "cleanup_and_backoff symbol s =
     (let c = (fst s)\<lparr>connections := removeAll symbol (connections (fst s))\<rparr>; t = snd s
      in if ws_running c
         then (c, t\<lparr>task_phase := Connecting, slept := slept t @ [reconnect_delay t],
                    reconnect_delay := min (reconnect_delay t * 2) 60\<rparr>)
         else (c, t\<lparr>task_phase := Exited\<rparr>))"

definition connect_symbol_step ::
  "(string \<Rightarrow> real option) \<Rightarrow> (datetime \<Rightarrow> timedelta) \<Rightarrow> string \<Rightarrow> ws_event \<Rightarrow>
   ws_client \<times> ws_task \<Rightarrow> ws_client \<times> ws_task" where
  "connect_symbol_step float_of_string utcoffset symbol ev s =
     (let c = fst s; t = snd s in
      case task_phase t of
        Exited \<Rightarrow> s
      | Connecting \<Rightarrow>
          if \<not> ws_running c then (c, t\<lparr>task_phase := Exited\<rparr>)
          else (case ev of
                  ConnectOpened \<Rightarrow>
                    (c\<lparr>connections := symbol # removeAll symbol (connections c)\<rparr>,
                     t\<lparr>task_phase := Streaming, reconnect_delay := 1\<rparr>)
                | ConnectFailed \<Rightarrow> cleanup_and_backoff symbol s
                | _ \<Rightarrow> s)
      | Streaming \<Rightarrow>
          (case ev of
             Received message \<Rightarrow>
               if \<not> ws_running c then cleanup_and_backoff symbol s
               else (case process_message float_of_string utcoffset message of
                       Inr (Some tick) \<Rightarrow> (c\<lparr>delivered := delivered c @ [tick]\<rparr>, t)
                     | _ \<Rightarrow> s)
           | ConnectionLost \<Rightarrow> cleanup_and_backoff symbol s
           | _ \<Rightarrow> s))"

fun connect_symbol ::
  "(string \<Rightarrow> real option) \<Rightarrow> (datetime \<Rightarrow> timedelta) \<Rightarrow> string \<Rightarrow> ws_event list \<Rightarrow>
   ws_client \<times> ws_task \<Rightarrow> ws_client \<times> ws_task" where
  "connect_symbol float_of_string utcoffset symbol [] s = s"
| "connect_symbol float_of_string utcoffset symbol (ev # evs) s =
     connect_symbol float_of_string utcoffset symbol evs
       (connect_symbol_step float_of_string utcoffset symbol ev s)"

text \<open>\<open>BinanceWebSocketClient.remove_symbol\<close>.\<close>

definition remove_symbol :: "ws_client \<Rightarrow> string \<Rightarrow> ws_client" where
  "remove_symbol c symbol =
     (let symbol = lower symbol
      in if symbol \<in> set (symbols c) then c\<lparr>symbols := remove1 symbol (symbols c)\<rparr> else c)"

text \<open>An example: a running client streaming one symbol, and a trade message for it.\<close>

definition example_float :: "string \<Rightarrow> real option" where
  "example_float s = (if s = ''50000.5'' then Some 50000.5 else if s = ''0.001'' then Some 0.001 else None)"

definition example_trade :: json where
  "example_trade = JObj [(''e'', JStr ''trade''), (''E'', JInt 1700000000123),
     (''T'', JInt 1700000000000), (''s'', JStr ''BTCUSDT''), (''p'', JStr ''50000.5''),
     (''q'', JStr ''0.001'')]"

definition example_client :: ws_client where
  "example_client = \<lparr>symbols = [''btcusdt''], ws_running = True, connections = [''btcusdt''],
     delivered = []\<rparr>"

definition example_task :: ws_task where
  "example_task = \<lparr>task_phase = Streaming, reconnect_delay = 1, slept = []\<rparr>"

section \<open>Storage: \<open>Database.get_ohlc\<close>\<close>

text \<open>The newest \<open>limit\<close> candles of the window, returned oldest first.\<close>

definition get_ohlc ::
  "'v ohlc_row list \<Rightarrow> string \<Rightarrow> string \<Rightarrow> datetime option \<Rightarrow> datetime option \<Rightarrow> nat \<Rightarrow>
   'v ohlc_row list" where
  "get_ohlc table symbol timeframe start_time end_time limit =
     rev (take limit (rev (sort_key row_timestamp
       (filter (\<lambda>r. row_symbol r = symbol \<and> row_timeframe r = timeframe \<and>
                     in_window start_time end_time (row_timestamp r)) table))))"

section \<open>Analytics: the numeric library\<close>

text \<open>
  An analytics function returns a result record, or a dictionary with the key \<open>error\<close>:
  \<open>Insufficient\<close> with the message of an early return (\<open>NeedAtLeast\<close> and
  \<open>OnlyAligned\<close> for the two messages that carry numbers), \<open>Failed\<close> with the
  exception caught by the enclosing \<open>except Exception\<close>.

  The pandas, numpy and scikit-learn calls are modelled on their documented results over
  exact reals: the mean, the sample standard deviation (one degree of freedom removed,
  \<open>NaN\<close> below two observations, \<open>NaN\<close> entries skipped), \<open>pct_change\<close> (the first
  entry is \<open>NaN\<close>; a zero previous value gives a non-finite entry, also \<open>None\<close> here),
  the last value of a rolling aggregate (it needs \<open>window\<close> observations, a negative
  window raises), and the least-squares line of \<open>LinearRegression\<close> with one regressor
  (coefficient \<open>0\<close> for a constant regressor).
\<close>

datatype analytics_error =
  Insufficient string | NeedAtLeast int | OnlyAligned nat int | Failed py_error

definition mean :: "real list \<Rightarrow> real" where
  "mean xs = sum_list xs / real (length xs)"

definition sample_std :: "real list \<Rightarrow> real option" where
  "sample_std xs =
     (if length xs < 2 then None
      else Some (sqrt (sum_list (map (\<lambda>x. (x - mean xs)\<^sup>2) xs) / real (length xs - 1))))"

fun pct_change_from :: "real \<Rightarrow> real list \<Rightarrow> real option list" where
  "pct_change_from prev [] = []"
| "pct_change_from prev (x # xs) =
     (if prev = 0 then None else Some (x / prev - 1)) # pct_change_from x xs"

definition pct_change :: "real list \<Rightarrow> real option list" where
  "pct_change xs = (case xs of [] \<Rightarrow> [] | x # rest \<Rightarrow> None # pct_change_from x rest)"

definition series_std :: "real option list \<Rightarrow> real option" where
  "series_std xs = sample_std (map the (filter (\<lambda>x. x \<noteq> None) xs))"

definition rolling_last :: "int \<Rightarrow> real option list \<Rightarrow> py_error + real list option" where
  "rolling_last window xs =
     (if window < 0 then Inl ValueError
      else if xs = [] then Inl IndexError
      else let w = nat window; last_w = drop (length xs - w) xs
           in if length xs < w \<or> w = 0 \<or> None \<in> set last_w then Inr None
              else Inr (Some (map the last_w)))"

definition rolling_std_last :: "int \<Rightarrow> real option list \<Rightarrow> py_error + real option" where
  "rolling_std_last window xs =
     (case rolling_last window xs of
        Inl e \<Rightarrow> Inl e
      | Inr None \<Rightarrow> Inr None
      | Inr (Some ys) \<Rightarrow> Inr (sample_std ys))"

definition rolling_mean_last :: "int \<Rightarrow> real option list \<Rightarrow> py_error + real option" where
  "rolling_mean_last window xs =
     (case rolling_last window xs of
        Inl e \<Rightarrow> Inl e
      | Inr None \<Rightarrow> Inr None
      | Inr (Some ys) \<Rightarrow> Inr (Some (mean ys)))"

section \<open>Analytics: \<open>compute_volatility\<close>\<close>

definition endswith :: "string \<Rightarrow> string \<Rightarrow> bool" where
  "endswith s suffix = (length suffix \<le> length s \<and> drop (length s - length suffix) s = suffix)"

definition periods_per_year :: "string \<Rightarrow> nat" where
  "periods_per_year timeframe = 365 * 24 * (if endswith timeframe ''m'' then 60 else 1)"

record volatility =
  vol_symbol :: string
  vol_timeframe :: string
  historical_volatility :: "real option"
  rolling_volatility :: "real option"
  vol_window :: int

definition compute_volatility ::
  "real ohlc_row list \<Rightarrow> datetime \<Rightarrow> string \<Rightarrow> string \<Rightarrow> int \<Rightarrow> analytics_error + volatility" where
  "compute_volatility table now symbol timeframe window =
     (let end_time = now;
          start_time = end_time - 86400000000;
          ohlc_data = get_ohlc table symbol timeframe (Some start_time) (Some end_time) 500
      in if ohlc_data = [] \<or> int (length ohlc_data) < window
         then Inl (Insufficient ''Insufficient data'')
         else let returns = pct_change (map row_close ohlc_data);
                  annual = sqrt (real (periods_per_year timeframe));
                  historical_vol = map_option (\<lambda>s. s * annual * 100) (series_std returns)
              in case rolling_std_last window returns of
                   Inl e \<Rightarrow> Inl (Failed e)
                 | Inr rolling \<Rightarrow>
                     Inr \<lparr>vol_symbol = symbol, vol_timeframe = timeframe,
                          historical_volatility = historical_vol,
                          rolling_volatility = map_option (\<lambda>s. s * annual * 100) rolling,
                          vol_window = window\<rparr>)"

section \<open>Analytics: \<open>compute_hedge_ratio\<close>\<close>

definition ols_fit :: "real list \<Rightarrow> real list \<Rightarrow> real \<times> real" where
  "ols_fit xs ys =
     (let sxx = sum_list (map (\<lambda>x. (x - mean xs)\<^sup>2) xs);
          sxy = sum_list (map (\<lambda>(x, y). (x - mean xs) * (y - mean ys)) (zip xs ys));
          coef = (if sxx = 0 then 0 else sxy / sxx)
      in (coef, mean ys - coef * mean xs))"

definition r_squared_of :: "real list \<Rightarrow> real list \<Rightarrow> real option" where
  "r_squared_of y y_pred =
     (let ss_res = sum_list (map (\<lambda>(a, b). (a - b)\<^sup>2) (zip y y_pred));
          ss_tot = sum_list (map (\<lambda>a. (a - mean y)\<^sup>2) y)
      in if ss_tot = 0 then None else Some (1 - ss_res / ss_tot))"

text \<open>\<open>pd.merge(..., on='timestamp')\<close>: the inner join, in the order of the left frame.\<close>

definition merge_on_timestamp ::
  "real ohlc_row list \<Rightarrow> real ohlc_row list \<Rightarrow> (datetime \<times> real \<times> real) list" where
  "merge_on_timestamp df1 df2 =
     concat (map (\<lambda>a. map (\<lambda>b. (row_timestamp a, row_close a, row_close b))
                          (filter (\<lambda>b. row_timestamp b = row_timestamp a) df2)) df1)"

record hedge_ratio_result =
  hr_symbol1 :: string
  hr_symbol2 :: string
  hedge_ratio :: real
  intercept :: real
  r_squared :: "real option"
  hr_method :: string
  hr_data_points :: nat
  hr_timeframe :: string

text \<open>
  The robust fit of \<open>HuberRegressor\<close> is an iterative optimisation of scikit-learn; it is
  the parameter \<open>huber_fit\<close>.
\<close>

definition compute_hedge_ratio ::
  "(real list \<Rightarrow> real list \<Rightarrow> py_error + real \<times> real) \<Rightarrow> real ohlc_row list \<Rightarrow> datetime \<Rightarrow>
   string \<Rightarrow> string \<Rightarrow> string \<Rightarrow> nat \<Rightarrow> string \<Rightarrow> analytics_error + hedge_ratio_result" where
  "compute_hedge_ratio huber_fit table now symbol1 symbol2 timeframe lookback method =
     (let end_time = now;
          start_time = end_time - 86400000000;
          data1 = get_ohlc table symbol1 timeframe (Some start_time) (Some end_time) lookback;
          data2 = get_ohlc table symbol2 timeframe (Some start_time) (Some end_time) lookback
      in if data1 = [] \<or> data2 = [] \<or> length data1 < 10 \<or> length data2 < 10
         then Inl (Insufficient ''Insufficient data'')
         else let merged = merge_on_timestamp data1 data2
              in if length merged < 10 then Inl (Insufficient ''Insufficient aligned data'')
                 else let X = map (\<lambda>(t, c1, c2). c2) merged;
                          y = map (\<lambda>(t, c1, c2). c1) merged
                      in case (if method = ''huber'' then huber_fit X y else Inr (ols_fit X y)) of
                           Inl e \<Rightarrow> Inl (Failed e)
                         | Inr (coef, icept) \<Rightarrow>
                             Inr \<lparr>hr_symbol1 = symbol1, hr_symbol2 = symbol2,
                                  hedge_ratio = coef, intercept = icept,
                                  r_squared = r_squared_of y (map (\<lambda>x. coef * x + icept) X),
                                  hr_method = method, hr_data_points = length merged,
                                  hr_timeframe = timeframe\<rparr>)"

text \<open>
  An example table: four one-minute candles for each of two instruments, with the closing
  prices 10, 12, 14, 16 and 20, 22, 24, 26 at the same four minutes.
\<close>

definition candle :: "string \<Rightarrow> nat \<Rightarrow> datetime \<Rightarrow> real \<Rightarrow> real ohlc_row" where
  "candle symbol i t c =
     \<lparr>row_id = i, row_symbol = symbol, row_timeframe = ''1m'', row_timestamp = t,
      row_open = c, row_high = c, row_low = c, row_close = c, row_volume = 1,
      row_trade_count = 1, row_created_at = t\<rparr>"

definition four_candles :: "real ohlc_row list" where
  "four_candles =
     [candle ''a'' 1 60000000 10, candle ''a'' 2 120000000 12, candle ''a'' 3 180000000 14,
      candle ''a'' 4 240000000 16,
      candle ''b'' 5 60000000 20, candle ''b'' 6 120000000 22, candle ''b'' 7 180000000 24,
      candle ''b'' 8 240000000 26]"

text \<open>Four candles of one second for one instrument, closing at 10, 12, 14, 16.\<close>

definition second_candles :: "real ohlc_row list" where
  "second_candles =
     map (\<lambda>r. r\<lparr>row_timeframe := ''1s''\<rparr>)
       [candle ''a'' 1 1000000 10, candle ''a'' 2 2000000 12, candle ''a'' 3 3000000 14,
        candle ''a'' 4 4000000 16]"

definition huber_unavailable :: "real list \<Rightarrow> real list \<Rightarrow> py_error + real \<times> real" where
  "huber_unavailable X y = Inl ValueError"

section \<open>Analytics: \<open>compute_spread_from_ticks\<close>\<close>

text \<open>
  \<open>pd.merge_asof(..., direction='nearest', tolerance=5 s)\<close> followed by \<open>dropna()\<close>,
  on frames sorted by timestamp: each left tick is paired with the price of the right tick
  nearest in time, the earlier one on a tie, when it lies within the tolerance; left ticks
  without such a partner are dropped.
\<close>

definition nearest_match :: "timedelta \<Rightarrow> datetime \<Rightarrow> real tick list \<Rightarrow> real option" where
  "nearest_match tolerance t right =
     (let backward = filter (\<lambda>r. tick_timestamp r \<le> t) right;
          forward = filter (\<lambda>r. t \<le> tick_timestamp r) right;
          chosen =
            (if backward = [] then (if forward = [] then None else Some (hd forward))
             else if forward = [] then Some (last backward)
             else if tick_timestamp (hd forward) - t < t - tick_timestamp (last backward)
                  then Some (hd forward) else Some (last backward))
      in case chosen of
           None \<Rightarrow> None
         | Some r \<Rightarrow> if \<bar>tick_timestamp r - t\<bar> \<le> tolerance then Some (tick_price r) else None)"

definition merge_asof ::
  "real tick list \<Rightarrow> real tick list \<Rightarrow> (datetime \<times> real \<times> real) list" where
  "merge_asof df1 df2 =
     List.map_filter
       (\<lambda>a. map_option (\<lambda>p2. (tick_timestamp a, tick_price a, p2))
               (nearest_match 5000000 (tick_timestamp a) df2)) df1"

text \<open>The two tick frames of the computation, sorted and aligned.\<close>

definition aligned_ticks ::
  "real tick list \<Rightarrow> string \<Rightarrow> string \<Rightarrow> nat \<Rightarrow> (datetime \<times> real \<times> real) list" where
  "aligned_ticks table symbol1 symbol2 tick_count =
     (let df1 = sort_key tick_timestamp (get_ticks table symbol1 None None tick_count);
          df2 = sort_key tick_timestamp (get_ticks table symbol2 None None tick_count)
      in merge_asof df1 df2)"

text \<open>The division of two Python floats: it raises on a zero divisor.\<close>

definition truediv :: "real \<Rightarrow> real \<Rightarrow> py_error + real" where
  "truediv a b = (if b = 0 then Inl ZeroDivisionError else Inr (a / b))"

record spread_result =
  sp_symbol1 :: string
  sp_symbol2 :: string
  sp_hedge_ratio :: real
  sp_intercept :: real
  current_spread :: real
  spread_mean :: "real option"
  spread_std :: "real option"
  current_zscore :: "real option"
  sp_price1 :: real
  sp_price2 :: real
  sp_timestamp :: datetime
  sp_window :: int
  sp_data_points :: nat

text \<open>
  The branch \<open>if spread_std > 0: ... else: current_zscore = 0.0\<close>. A comparison with
  \<open>NaN\<close> is false.
\<close>

definition zscore :: "real \<Rightarrow> real option \<Rightarrow> real option \<Rightarrow> py_error + real option" where
  "zscore current mean_opt std_opt =
     (if (case std_opt of Some s \<Rightarrow> s > 0 | None \<Rightarrow> False)
      then (case mean_opt of
              None \<Rightarrow> Inr None
            | Some m \<Rightarrow> (case truediv (current - m) (the std_opt) of
                          Inl e \<Rightarrow> Inl e | Inr z \<Rightarrow> Inr (Some z)))
      else Inr (Some 0))"

text \<open>\<open>LinearRegression.fit\<close> raises on an empty sample.\<close>

definition compute_spread_from_ticks ::
  "real tick list \<Rightarrow> string \<Rightarrow> string \<Rightarrow> nat \<Rightarrow> int \<Rightarrow> analytics_error + spread_result" where
  "compute_spread_from_ticks table symbol1 symbol2 tick_count window =
     (let ticks1 = get_ticks table symbol1 None None tick_count;
          ticks2 = get_ticks table symbol2 None None tick_count
      in if ticks1 = [] \<or> ticks2 = [] then Inl (Insufficient ''Insufficient tick data'')
         else if int (length ticks1) < window \<or> int (length ticks2) < window
         then Inl (NeedAtLeast window)
         else let merged = aligned_ticks table symbol1 symbol2 tick_count
              in if int (length merged) < window then Inl (OnlyAligned (length merged) window)
                 else if merged = [] then Inl (Failed ValueError)
                 else let prices1 = map (\<lambda>(t, p1, p2). p1) merged;
                          prices2 = map (\<lambda>(t, p1, p2). p2) merged;
                          fit = ols_fit prices2 prices1;
                          spread = map (\<lambda>(t, p1, p2). p1 - fst fit * p2) merged
                      in case rolling_mean_last window (map Some spread) of
                           Inl e \<Rightarrow> Inl (Failed e)
                         | Inr rolling_mean \<Rightarrow>
                            (case rolling_std_last window (map Some spread) of
                               Inl e \<Rightarrow> Inl (Failed e)
                             | Inr rolling_std \<Rightarrow>
                                (case zscore (last spread) rolling_mean rolling_std of
                                   Inl e \<Rightarrow> Inl (Failed e)
                                 | Inr z \<Rightarrow>
                                    Inr \<lparr>sp_symbol1 = symbol1, sp_symbol2 = symbol2,
                                         sp_hedge_ratio = fst fit, sp_intercept = snd fit,
                                         current_spread = last spread,
                                         spread_mean = rolling_mean, spread_std = rolling_std,
                                         current_zscore = z,
                                         sp_price1 = last prices1, sp_price2 = last prices2,
                                         sp_timestamp = fst (last merged),
                                         sp_window = window,
                                         sp_data_points = length merged\<rparr>)))"

text \<open>
  An example table: three ticks of \<open>a\<close> at the prices 1, 2, 3 and three of \<open>b\<close> at the
  prices 2, 4, 6, at the same three seconds; the spread of \<open>a\<close> against \<open>b\<close> is constant.
\<close>

definition tick_of :: "string \<Rightarrow> datetime \<Rightarrow> real \<Rightarrow> real tick" where
  "tick_of symbol t p = \<lparr>tick_symbol = symbol, tick_timestamp = t, tick_price = p, tick_size = 1\<rparr>"

definition six_ticks :: "real tick list" where
  "six_ticks =
     [tick_of ''a'' 1000000 1, tick_of ''b'' 1000000 2, tick_of ''a'' 2000000 2,
      tick_of ''b'' 2000000 4, tick_of ''a'' 3000000 3, tick_of ''b'' 3000000 6]"

section \<open>Properties of the storage upsert\<close>

lemma row_key_update_existing [simp]: "row_key (update_existing d r) = row_key r"
  by (simp add: row_key_def update_existing_def)

lemma row_key_new_row [simp]: "row_key (new_row d now i) = data_key d"
  by (simp add: row_key_def data_key_def new_row_def)

lemma filter_key_distinct:
  "distinct (map f xs) \<Longrightarrow> filter (\<lambda>r. f r = k) xs = [] \<or> (\<exists>x. filter (\<lambda>r. f r = k) xs = [x])"
proof (induction xs)
  case Nil
  then show ?case by simp
next
  case (Cons a xs)
  show ?case
  proof (cases "f a = k")
    case True
    with Cons.prems have "\<forall>x \<in> set xs. f x \<noteq> k" by (auto simp: image_iff)
    then have "filter (\<lambda>r. f r = k) xs = []" by (simp add: filter_empty_conv)
    with True show ?thesis by simp
  next
    case False
    with Cons show ?thesis by simp
  qed
qed

lemma row_id_less_next_id: "r \<in> set rows \<Longrightarrow> row_id r < next_id rows"
proof -
  assume "r \<in> set rows"
  then have "row_id r \<in> set (0 # map row_id rows)" by simp
  then have "row_id r \<le> Max (set (0 # map row_id rows))" by (intro Max_ge) auto
  moreover have "fold max (map row_id rows) 0 = Max (set (0 # map row_id rows))"
    by (rule Max.set_eq_fold [symmetric])
  ultimately show ?thesis by (simp only: next_id_def)
qed

lemma row_id_update_existing [simp]: "row_id (update_existing d r) = row_id r"
  by (simp add: update_existing_def)

lemma row_id_new_row [simp]: "row_id (new_row d now i) = i"
  by (simp add: new_row_def)

lemma holds_data_new_row: "holds_data d (new_row d now i)"
  by (simp add: holds_data_def new_row_def row_key_def data_key_def)

lemma holds_data_update_existing:
  "row_key r = data_key d \<Longrightarrow> holds_data d (update_existing d r)"
  by (simp add: holds_data_def update_existing_def row_key_def)

lemma update_existing_same: "holds_data d r \<Longrightarrow> update_existing d r = r"
  by (simp add: holds_data_def update_existing_def)

lemma filter_map_update:
  assumes "distinct (map row_id rows)" and "filter (\<lambda>r. row_key r = k) rows = [x]"
  shows "filter (\<lambda>r. row_key r = k)
           (map (\<lambda>r. if row_id r = row_id x then update_existing d r else r) rows)
         = [update_existing d x]"
proof -
  let ?u = "\<lambda>r. if row_id r = row_id x then update_existing d r else r"
  have key: "\<And>r. row_key (?u r) = row_key r" by simp
  have "filter (\<lambda>r. row_key r = k) (map ?u rows) = map ?u (filter (\<lambda>r. row_key r = k) rows)"
    by (simp add: filter_map comp_def)
  then show ?thesis using assms(2) by simp
qed

lemma insert_ohlc_result:
  assumes "ohlc_table rows"
  shows "\<exists>rows' r. insert_ohlc d now rows = Inr rows' \<and> ohlc_table rows' \<and>
           filter (\<lambda>r. row_key r = data_key d) rows' = [r] \<and> holds_data d r \<and>
           (filter (\<lambda>r. row_key r = data_key d) rows \<noteq> [] \<longrightarrow> length rows' = length rows) \<and>
           ((\<exists>x. filter (\<lambda>r. row_key r = data_key d) rows = [x] \<and> holds_data d x)
              \<longrightarrow> rows' = rows)"
proof -
  let ?P = "\<lambda>r. row_key r = data_key d"
  from assms have dk: "distinct (map row_key rows)" and di: "distinct (map row_id rows)"
    by (simp_all add: ohlc_table_def uix_ohlc_def)
  from filter_key_distinct [OF dk, of "data_key d"]
  consider (absent) "filter ?P rows = []" | (present) x where "filter ?P rows = [x]"
    by blast
  then show ?thesis
  proof cases
    case absent
    let ?n = "new_row d now (next_id rows)"
    have res: "insert_ohlc d now rows = Inr (rows @ [?n])"
      using absent by (simp add: insert_ohlc_def)
    have nokey: "data_key d \<notin> set (map row_key rows)"
      using absent by (auto simp: filter_empty_conv)
    have noid: "next_id rows \<notin> set (map row_id rows)"
      using row_id_less_next_id [of _ rows] by fastforce
    have "ohlc_table (rows @ [?n])"
      using dk di nokey noid by (simp add: ohlc_table_def uix_ohlc_def)
    moreover have "filter ?P (rows @ [?n]) = [?n]" using absent by simp
    ultimately show ?thesis using res absent holds_data_new_row [of d now "next_id rows"]
      by auto
  next
    case present
    let ?u = "\<lambda>r. if row_id r = row_id x then update_existing d r else r"
    have res: "insert_ohlc d now rows = Inr (map ?u rows)"
      using present by (simp add: insert_ohlc_def)
    have "x \<in> set (filter ?P rows)" using present by simp
    then have xs: "x \<in> set rows" and xk: "row_key x = data_key d" by simp_all
    have keys: "map row_key (map ?u rows) = map row_key rows" by (simp add: comp_def)
    have ids: "map row_id (map ?u rows) = map row_id rows" by (simp add: comp_def)
    have tab: "ohlc_table (map ?u rows)"
      using dk di by (simp only: ohlc_table_def uix_ohlc_def keys ids)
    have fil: "filter ?P (map ?u rows) = [update_existing d x]"
      by (rule filter_map_update [OF di present])
    have same: "holds_data d x \<Longrightarrow> map ?u rows = rows"
    proof -
      assume h: "holds_data d x"
      have "\<And>r. r \<in> set rows \<Longrightarrow> ?u r = r"
      proof -
        fix r assume "r \<in> set rows"
        show "?u r = r"
        proof (cases "row_id r = row_id x")
          case True
          with di \<open>r \<in> set rows\<close> xs have "r = x" by (meson distinct_map inj_onD)
          with h show ?thesis by (simp add: update_existing_same)
        next
          case False
          then show ?thesis by simp
        qed
      qed
      then show ?thesis by (simp add: map_idI)
    qed
    show ?thesis
      using res tab fil holds_data_update_existing [OF xk] same present
      by auto
  qed
qed

text \<open>
  Claim C1. On a table that satisfies its constraints, writing a candle and then writing a
  candle with the same key \<open>(symbol, timeframe, timestamp)\<close> both succeed; the second
  write adds no row, leaves exactly one row for the key, and that row carries the six value
  fields of the second write. When the second write carries the same values as the first
  (the resampling of the same ticks), the table is unchanged.
\<close>

theorem insert_ohlc_twice_one_row:
  assumes "ohlc_table rows" and "data_key d2 = data_key d"
  shows "\<exists>rows1 rows2 r.
           insert_ohlc d t1 rows = Inr rows1 \<and> insert_ohlc d2 t2 rows1 = Inr rows2 \<and>
           length rows2 = length rows1 \<and> ohlc_table rows2 \<and>
           filter (\<lambda>x. row_key x = data_key d) rows2 = [r] \<and> holds_data d2 r \<and>
           (d2 = d \<longrightarrow> rows2 = rows1)"
proof -
  from insert_ohlc_result [OF assms(1), of d t1]
  obtain rows1 r1 where one: "insert_ohlc d t1 rows = Inr rows1" "ohlc_table rows1"
    "filter (\<lambda>x. row_key x = data_key d) rows1 = [r1]" "holds_data d r1"
    by blast
  from insert_ohlc_result [OF one(2), of d2 t2]
  obtain rows2 r2 where two: "insert_ohlc d2 t2 rows1 = Inr rows2" "ohlc_table rows2"
    "filter (\<lambda>x. row_key x = data_key d2) rows2 = [r2]" "holds_data d2 r2"
    "filter (\<lambda>x. row_key x = data_key d2) rows1 \<noteq> [] \<longrightarrow> length rows2 = length rows1"
    "(\<exists>x. filter (\<lambda>x. row_key x = data_key d2) rows1 = [x] \<and> holds_data d2 x)
       \<longrightarrow> rows2 = rows1"
    by blast
  have len: "length rows2 = length rows1" using two(5) one(3) assms(2) by simp
  have same: "d2 = d \<longrightarrow> rows2 = rows1" using two(6) one(3,4) by auto
  show ?thesis using one(1) two(1,2,3,4) len same assms(2) by auto
qed

theorem insert_ohlc_twice_one_row_witness:
  "ohlc_table ([] :: real ohlc_row list) \<and>
   (\<exists>rows1 rows2 r.
      insert_ohlc \<lparr>od_symbol = ''btcusdt'', od_timeframe = ''1m'', od_timestamp = 60000000,
                    od_open = (1::real), od_high = 3, od_low = 1, od_close = 2, od_volume = 5,
                    od_trade_count = Some 4\<rparr> 0 [] = Inr rows1 \<and>
      insert_ohlc \<lparr>od_symbol = ''btcusdt'', od_timeframe = ''1m'', od_timestamp = 60000000,
                    od_open = (1::real), od_high = 4, od_low = 1, od_close = 2, od_volume = 7,
                    od_trade_count = None\<rparr> 1 rows1 = Inr rows2 \<and>
      length rows2 = length rows1 \<and> length rows2 = 1 \<and> row_high (hd rows2) = 4)"
proof -
  let ?d = "\<lparr>od_symbol = ''btcusdt'', od_timeframe = ''1m'', od_timestamp = 60000000,
             od_open = (1::real), od_high = 3, od_low = 1, od_close = 2, od_volume = 5,
             od_trade_count = Some 4\<rparr>"
  let ?d2 = "\<lparr>od_symbol = ''btcusdt'', od_timeframe = ''1m'', od_timestamp = 60000000,
              od_open = (1::real), od_high = 4, od_low = 1, od_close = 2, od_volume = 7,
              od_trade_count = None\<rparr>"
  have t: "ohlc_table ([] :: real ohlc_row list)"
    by (simp add: ohlc_table_def uix_ohlc_def)
  have k: "data_key ?d2 = data_key ?d" by (simp add: data_key_def)
  from insert_ohlc_twice_one_row [OF t k, of 0 1]
  obtain rows1 rows2 r where h: "insert_ohlc ?d 0 [] = Inr rows1"
    "insert_ohlc ?d2 1 rows1 = Inr rows2" "length rows2 = length rows1"
    "filter (\<lambda>x. row_key x = data_key ?d) rows2 = [r]" "holds_data ?d2 r"
    by blast
  from h(1) have r1: "length rows1 = 1" by (auto simp: insert_ohlc_def)
  with h(3) obtain y where y: "rows2 = [y]" by (cases rows2) auto
  with h(4) have "y = r" by (auto split: if_splits)
  with h(5) y have "row_high (hd rows2) = 4" by (simp add: holds_data_def)
  with t h r1 show ?thesis by auto
qed

text \<open>
  Claim C8. With the condition \<open>==\<close> the evaluation is true exactly when the observed
  value is within \<open>1e-4\<close> of the threshold: for the threshold \<open>100.0\<close> it is true at
  \<open>100.00005\<close> and false at \<open>100.001\<close>.
\<close>

theorem evaluate_condition_eq_epsilon:
  "evaluate_condition v ''=='' h = (\<bar>v - h\<bar> < 1 / 10000) \<and>
   evaluate_condition 100.00005 ''=='' 100.0 \<and>
   \<not> evaluate_condition 100.001 ''=='' 100.0"
  by (simp add: evaluate_condition_def)

section \<open>Properties of the candle boundary\<close>

lemma round_half_even_of_int [simp]: "round_half_even (of_int k) = k"
  by (simp add: round_half_even_def)

lemma parse_timeframe_1s: "parse_timeframe ''1s'' = Inr 1000000"
  by (simp add: parse_timeframe_def py_int_def unsigned_int_def digit_of_def
      is_space_def timedelta_of_microseconds_def)

lemma parse_timeframe_1m: "parse_timeframe ''1m'' = Inr 60000000"
  by (simp add: parse_timeframe_def py_int_def unsigned_int_def digit_of_def
      is_space_def timedelta_of_microseconds_def)

lemma get_candle_timestamp_quotient:
  assumes "parse_timeframe tf = Inr d" and "d \<noteq> 0"
  shows "get_candle_timestamp t tf = Inr (py_int_of_float (of_int t / of_int d) * d)"
proof -
  let ?q = "py_int_of_float (of_int t / of_int d)"
  have "of_int ?q * total_seconds d * 1000000 = (of_int (?q * d) :: real)"
    by (simp add: total_seconds_def)
  then have "timedelta_seconds (of_int ?q * total_seconds d) = ?q * d"
    by (simp only: timedelta_seconds_def round_half_even_of_int)
  moreover have "total_seconds t / total_seconds d = of_int t / of_int d"
    by (simp add: total_seconds_def)
  moreover have "total_seconds d \<noteq> 0" using assms(2) by (simp add: total_seconds_def)
  ultimately show ?thesis using assms(1)
    by (simp add: get_candle_timestamp_def Let_def)
qed

lemma get_candle_timestamp_floor:
  assumes "parse_timeframe tf = Inr d" and "0 < d" and "0 \<le> t"
  shows "get_candle_timestamp t tf = Inr ((t div d) * d)"
proof -
  have "(0::real) \<le> of_int t / of_int d" using assms(2,3) by simp
  then have "py_int_of_float (of_int t / of_int d) = t div d"
    by (simp add: py_int_of_float_def floor_divide_of_int_eq)
  with get_candle_timestamp_quotient [OF assms(1), of t] assms(2) show ?thesis by simp
qed

lemma get_candle_timestamp_before_epoch: "get_candle_timestamp (- 500000) ''1s'' = Inr 0"
proof -
  have "\<lceil>- (1 / 2) :: real\<rceil> = 0" by (simp add: ceiling_eq_iff)
  then have "py_int_of_float (of_int (- 500000) / of_int 1000000) = 0"
    by (simp add: py_int_of_float_def)
  with get_candle_timestamp_quotient [OF parse_timeframe_1s, of "- 500000"] show ?thesis
    by simp
qed

text \<open>
  Claim C3. The timestamps the engine floors are readings of the clock, which lie at or
  after the epoch. For every such timestamp and every timeframe that parses to a positive
  duration \<open>d\<close>, the candle timestamp is \<open>(t div d) * d\<close>, a function of the timestamp
  and the timeframe alone, and it brackets the timestamp: \<open>b \<le> t < b + d\<close>.
\<close>

theorem get_candle_timestamp_bucket:
  assumes "parse_timeframe tf = Inr d" and "0 < d" and "0 \<le> t"
  shows "\<exists>b. get_candle_timestamp t tf = Inr b \<and> b = (t div d) * d \<and> b \<le> t \<and> t < b + d"
proof -
  have "t = (t div d) * d + t mod d" by simp
  moreover have "0 \<le> t mod d" "t mod d < d" using assms(2) by simp_all
  ultimately have "(t div d) * d \<le> t \<and> t < (t div d) * d + d" by linarith
  with get_candle_timestamp_floor [OF assms] show ?thesis by simp
qed

theorem get_candle_timestamp_bucket_witness:
  "parse_timeframe ''1m'' = Inr 60000000 \<and> (0::int) < 60000000 \<and> (0::int) \<le> 90500000 \<and>
   get_candle_timestamp 90500000 ''1m'' = Inr 60000000"
proof -
  have "(0::int) < 60000000" and "(0::int) \<le> 90500000" by simp_all
  from get_candle_timestamp_bucket [OF parse_timeframe_1m this]
  show ?thesis using parse_timeframe_1m by simp
qed

section \<open>Properties of the cache\<close>

lemma redis_range_take: "0 \<le> k \<Longrightarrow> redis_range xs 0 k = take (nat (k + 1)) xs"
  by (auto simp: redis_range_def Let_def min_def)

lemma redis_push_sequence:
  assumes "redis_live r now key = l" and "1 \<le> max_size"
  shows "lists (expire (ltrim (lpush r now key x) now key 0 (max_size - 1)) now key 3600) key
           = take (nat max_size) (x # l) \<and>
         expiry (expire (ltrim (lpush r now key x) now key 0 (max_size - 1)) now key 3600) key
           = Some (now + 3600000000)"
proof -
  let ?r1 = "lpush r now key x"
  let ?r2 = "ltrim ?r1 now key 0 (max_size - 1)"
  let ?r3 = "expire ?r2 now key 3600"
  have e1: "\<not> redis_expired ?r1 now key"
    by (simp add: lpush_def redis_expired_def split: option.splits)
  have "lists ?r1 key = x # redis_live r now key" by (simp add: lpush_def)
  with e1 assms(1) have l1: "redis_live ?r1 now key = x # l" by (simp add: redis_live_def)
  have "expiry ?r2 key = expiry ?r1 key" using e1 by (simp add: ltrim_def)
  with e1 have e2: "\<not> redis_expired ?r2 now key" by (simp add: redis_expired_def)
  have "lists ?r2 key = redis_range (redis_live ?r1 now key) 0 (max_size - 1)"
    by (simp add: ltrim_def)
  with l1 assms(2) have l2: "lists ?r2 key = take (nat max_size) (x # l)"
    by (simp add: redis_range_take)
  have "take (nat max_size) (x # l) \<noteq> []" using assms(2) by (simp add: take_Cons')
  with e2 l2 have ne: "redis_live ?r2 now key \<noteq> []" by (simp add: redis_live_def)
  have l3: "lists ?r3 key = lists ?r2 key" by (simp add: expire_def)
  have x3: "expiry ?r3 key = Some (now + 3600000000)" using ne by (simp add: expire_def)
  from l2 l3 x3 show ?thesis by simp
qed

lemma push_tick_live:
  assumes "enabled c" and "client c = Some r" and "key = ''ticks:'' @ symbol"
    and "redis_live r now key = l" and "1 \<le> max_size"
  shows "\<exists>r'. client (push_tick c now symbol x max_size) = Some r' \<and>
           enabled (push_tick c now symbol x max_size) \<and>
           lists r' key = take (nat max_size) (x # l) \<and>
           expiry r' key = Some (now + 3600000000)"
proof -
  have "push_tick c now symbol x max_size =
          c\<lparr>client := Some (expire (ltrim (lpush r now key x) now key 0 (max_size - 1)) now key 3600)\<rparr>"
    using assms(1,2) by (simp add: push_tick_def Let_def assms(3))
  with redis_push_sequence [OF assms(4,5), of x] assms(1) show ?thesis by simp
qed

lemma take_append_take: "take n (ys @ take n zs) = take n (ys @ zs)"
  by (simp add: min_def)

lemma push_ticks_live:
  assumes "enabled c" and "client c = Some r" and "key = ''ticks:'' @ symbol"
    and "\<forall>t. t0 \<le> t \<and> t < t0 + 3600000000 \<longrightarrow> redis_live r t key = l"
    and "length l \<le> 1000"
    and "within_ttl t0 (map fst xs)"
  shows "\<exists>r'. client (push_ticks c symbol xs) = Some r' \<and> enabled (push_ticks c symbol xs) \<and>
           (\<forall>t. last (t0 # map fst xs) \<le> t \<and> t < last (t0 # map fst xs) + 3600000000 \<longrightarrow>
                redis_live r' t key = take 1000 (rev (map snd xs) @ l))"
  using assms
proof (induction xs arbitrary: c r t0 l)
  case Nil
  then show ?case by simp
next
  case (Cons p xs)
  obtain now x where p: "p = (now, x)" by (cases p)
  from Cons.prems(6) p have tm: "t0 \<le> now" "now < t0 + 3600000000"
    and rest: "within_ttl now (map fst xs)" by simp_all
  from Cons.prems(4) tm have live: "redis_live r now key = l" by simp
  from push_tick_live [OF Cons.prems(1,2,3) live, of 1000 x]
  obtain r1 where r1: "client (push_tick c now symbol x 1000) = Some r1"
    "enabled (push_tick c now symbol x 1000)"
    "lists r1 key = take 1000 (x # l)"
    "expiry r1 key = Some (now + 3600000000)"
    by auto
  have live1: "\<forall>t. now \<le> t \<and> t < now + 3600000000 \<longrightarrow> redis_live r1 t key = take 1000 (x # l)"
    using r1(3,4) by (simp add: redis_live_def redis_expired_def)
  have len1: "length (take 1000 (x # l)) \<le> 1000" by simp
  from Cons.IH [OF r1(2) r1(1) Cons.prems(3) live1 len1 rest]
  obtain r' where r': "client (push_ticks (push_tick c now symbol x 1000) symbol xs) = Some r'"
    "enabled (push_ticks (push_tick c now symbol x 1000) symbol xs)"
    "\<forall>t. last (now # map fst xs) \<le> t \<and> t < last (now # map fst xs) + 3600000000 \<longrightarrow>
         redis_live r' t key = take 1000 (rev (map snd xs) @ take 1000 (x # l))"
    by blast
  have tk: "take 1000 (rev (map snd xs) @ take 1000 (x # l)) = take 1000 (rev (map snd (p # xs)) @ l)"
    by (simp only: take_append_take) (simp add: p)
  show ?case using r' tk p by simp
qed

lemma get_recent_ticks_live:
  assumes "enabled c" and "client c = Some r" and "key = ''ticks:'' @ symbol" and "1 \<le> count"
  shows "get_recent_ticks c now symbol count = rev (take (nat count) (redis_live r now key))"
  using assms by (simp add: get_recent_ticks_def lrange_def redis_range_take)

lemma push_ticks_recent:
  assumes "1 \<le> count" and "ticks \<noteq> []" and "within_ttl (fst (hd ticks)) (map fst ticks)"
    and "fst (last ticks) \<le> now" and "now < fst (last ticks) + 3600000000"
  shows "get_recent_ticks (push_ticks fresh_cache symbol ticks) now symbol count
         = drop (length ticks - min (nat count) 1000) (map snd ticks)"
proof -
  define key where "key = ''ticks:'' @ symbol"
  let ?r0 = "\<lparr>lists = (\<lambda>k. []), expiry = (\<lambda>k. None)\<rparr> :: 'a redis"
  have e: "enabled (fresh_cache :: 'a redis_cache)" and c: "client fresh_cache = Some ?r0"
    by (simp_all add: fresh_cache_def)
  have l0: "\<forall>t. fst (hd ticks) \<le> t \<and> t < fst (hd ticks) + 3600000000 \<longrightarrow> redis_live ?r0 t key = []"
    by (simp add: redis_live_def)
  from push_ticks_live [OF e c key_def l0 _ assms(3)]
  obtain r' where r': "client (push_ticks fresh_cache symbol ticks) = Some r'"
    "enabled (push_ticks fresh_cache symbol ticks)"
    "\<forall>t. last (fst (hd ticks) # map fst ticks) \<le> t \<and> t < last (fst (hd ticks) # map fst ticks) + 3600000000 \<longrightarrow>
         redis_live r' t key = take 1000 (rev (map snd ticks) @ [])"
    by auto
  have "last (fst (hd ticks) # map fst ticks) = fst (last ticks)"
    using assms(2) by (simp add: last_map)
  with r'(3) assms(4,5) have live: "redis_live r' now key = take 1000 (rev (map snd ticks))" by simp
  have "get_recent_ticks (push_ticks fresh_cache symbol ticks) now symbol count
          = rev (take (nat count) (take 1000 (rev (map snd ticks))))"
    using get_recent_ticks_live [OF r'(2) r'(1) key_def assms(1), of now] live by simp
  also have "\<dots> = rev (take (min (nat count) 1000) (rev (map snd ticks)))" by simp
  also have "\<dots> = drop (length ticks - min (nat count) 1000) (map snd ticks)"
    by (simp add: rev_take)
  finally show ?thesis .
qed

text \<open>
  Claim C9, amended. For a count of at least one, after the ticks were pushed in their
  order of arrival and while the key has not expired, \<open>get_recent_ticks\<close> returns the
  most recent \<open>min count 1000\<close> of them in the order of arrival: oldest first, the most
  recent tick last.
\<close>

theorem get_recent_ticks_oldest_first:
  assumes "1 \<le> count" and "ticks \<noteq> []" and "within_ttl (fst (hd ticks)) (map fst ticks)"
    and "fst (last ticks) \<le> now" and "now < fst (last ticks) + 3600000000"
  shows "get_recent_ticks (push_ticks fresh_cache symbol ticks) now symbol count
         = drop (length ticks - min (nat count) 1000) (map snd ticks)"
  using assms by (rule push_ticks_recent)

theorem get_recent_ticks_oldest_first_witness:
  "(1::int) \<le> 2 \<and> three_ticks \<noteq> [] \<and>
   within_ttl (fst (hd three_ticks)) (map fst three_ticks) \<and>
   fst (last three_ticks) \<le> 8 \<and> 8 < fst (last three_ticks) + 3600000000 \<and>
   get_recent_ticks (push_ticks fresh_cache ''btcusdt'' three_ticks) 8 ''btcusdt'' 2 = [2, 3]"
proof -
  have a: "(1::int) \<le> 2" and b: "three_ticks \<noteq> []" by (simp_all add: three_ticks_def)
  have c: "within_ttl (fst (hd three_ticks)) (map fst three_ticks)"
    by (simp add: three_ticks_def)
  have d: "fst (last three_ticks) \<le> 8" and e: "8 < fst (last three_ticks) + 3600000000"
    by (simp_all add: three_ticks_def)
  from get_recent_ticks_oldest_first [OF a b c d e, of "''btcusdt''"]
  have "get_recent_ticks (push_ticks fresh_cache ''btcusdt'' three_ticks) 8 ''btcusdt'' 2 = [2, 3]"
    by (simp add: three_ticks_def)
  with a b c d e show ?thesis by blast
qed

text \<open>
  Claim C9 as stated fails: with three ticks pushed, the two most recent come back with the
  most recent one last, not first.
\<close>

theorem get_recent_ticks_counterexample:
  "get_recent_ticks (push_ticks fresh_cache ''btcusdt'' three_ticks) 8 ''btcusdt'' 2 \<noteq> [3, 2]"
proof -
  have a: "(1::int) \<le> 2" and b: "three_ticks \<noteq> []" by (simp_all add: three_ticks_def)
  have c: "within_ttl (fst (hd three_ticks)) (map fst three_ticks)"
    by (simp add: three_ticks_def)
  have d: "fst (last three_ticks) \<le> 8" and e: "8 < fst (last three_ticks) + 3600000000"
    by (simp_all add: three_ticks_def)
  have "get_recent_ticks (push_ticks fresh_cache ''btcusdt'' three_ticks) 8 ''btcusdt'' 2 = [2, 3]"
    using push_ticks_recent [OF a b c d e, of "''btcusdt''"] by (simp add: three_ticks_def)
  then show ?thesis by simp
qed

section \<open>Properties of the resampling cycle\<close>

lemma insert_ohlc_new_rows:
  assumes "insert_ohlc d now rows = Inr rows'" and "r \<in> set rows'" and "r \<notin> set rows"
    and "ohlc_table rows"
  shows "row_key r = data_key d"
proof -
  let ?P = "\<lambda>r. row_key r = data_key d"
  from assms(4) have dk: "distinct (map row_key rows)" and di: "distinct (map row_id rows)"
    by (simp_all add: ohlc_table_def uix_ohlc_def)
  from filter_key_distinct [OF dk, of "data_key d"]
  consider (absent) "filter ?P rows = []" | (present) x where "filter ?P rows = [x]"
    by blast
  then show ?thesis
  proof cases
    case absent
    with assms(1) have "rows' = rows @ [new_row d now (next_id rows)]"
      by (simp add: insert_ohlc_def)
    with assms(2,3) show ?thesis by auto
  next
    case present
    have "x \<in> set (filter ?P rows)" using present by simp
    then have xs: "x \<in> set rows" and xk: "row_key x = data_key d" by simp_all
    from present assms(1)
    have "rows' = map (\<lambda>r. if row_id r = row_id x then update_existing d r else r) rows"
      by (simp add: insert_ohlc_def)
    with assms(2) obtain y where y: "y \<in> set rows"
      "r = (if row_id y = row_id x then update_existing d y else y)" by auto
    have "row_id y = row_id x"
    proof (rule ccontr)
      assume "row_id y \<noteq> row_id x"
      with y(2) have "r = y" by simp
      with y(1) assms(3) show False by simp
    qed
    with di y(1) xs have "y = x" by (meson distinct_map inj_onD)
    with y(2) xk show ?thesis by simp
  qed
qed

lemma last_filter_holds: "filter P xs \<noteq> [] \<Longrightarrow> P (last (filter P xs))"
proof -
  assume "filter P xs \<noteq> []"
  then have "last (filter P xs) \<in> set (filter P xs)" by (rule last_in_set)
  then show ?thesis by simp
qed

lemma candle_data_key [simp]:
  "od_symbol (candle_data symbol timeframe rs latest) = symbol"
  "od_timeframe (candle_data symbol timeframe rs latest) = timeframe"
  "od_timestamp (candle_data symbol timeframe rs latest) = fst latest"
  by (simp_all add: candle_data_def Let_def)

lemma resample_body_written:
  assumes "resample_body resample symbol timeframe clk (eng, st) = Inr (eng', st')"
    and "db_ohlc st' \<noteq> db_ohlc st"
  shows "\<exists>b d. get_candle_timestamp (clk_now clk) timeframe = Inr b \<and> od_timestamp d < b \<and>
           od_symbol d = symbol \<and> od_timeframe d = timeframe \<and>
           insert_ohlc d (clk_commit clk) (db_ohlc st) = Inr (db_ohlc st')"
proof -
  let ?ticks = "recent_ticks st clk symbol"
  from assms have t: "?ticks \<noteq> []"
    by (auto simp: resample_body_def Let_def)
  from assms t obtain rs where rs: "resample ?ticks timeframe = Inr rs"
    by (cases "resample ?ticks timeframe") (auto simp: resample_body_def Let_def)
  from assms t rs obtain b where b: "get_candle_timestamp (clk_now clk) timeframe = Inr b"
    by (cases "get_candle_timestamp (clk_now clk) timeframe")
       (auto simp: resample_body_def Let_def)
  let ?complete = "filter (\<lambda>row. fst row < b) (rs_ohlc rs)"
  from assms t rs b have c: "?complete \<noteq> []"
    by (auto simp: resample_body_def Let_def)
  let ?d = "candle_data symbol timeframe rs (last ?complete)"
  from assms t rs b c
  have ins: "insert_ohlc ?d (clk_commit clk) (db_ohlc st) = Inr (db_ohlc st')"
    by (cases "insert_ohlc ?d (clk_commit clk) (db_ohlc st)")
       (auto simp: resample_body_def Let_def split: if_splits)
  from last_filter_holds [OF c] have "od_timestamp ?d < b" by simp
  with b ins show ?thesis by (intro exI [of _ b] exI [of _ ?d]) simp
qed

text \<open>
  Claim C2. Whatever the resampling returns, every row that a cycle writes to the table
  \<open>ohlc\<close> belongs to the instrument and timeframe of the cycle and has a timestamp
  strictly earlier than the candle timestamp of \<open>now\<close>; so the candle of the bucket that
  contains \<open>now\<close> is not written, also when the frames hold a row for it.
\<close>

theorem resample_cycle_complete_only:
  assumes "resample_cycle resample symbol timeframe clk (eng, st) = (eng', st')"
    and "ohlc_table (db_ohlc st)"
    and "r \<in> set (db_ohlc st')" and "r \<notin> set (db_ohlc st)"
  shows "\<exists>b. get_candle_timestamp (clk_now clk) timeframe = Inr b \<and> row_timestamp r < b \<and>
             row_symbol r = symbol \<and> row_timeframe r = timeframe"
proof -
  from assms(3,4) have ne: "db_ohlc st' \<noteq> db_ohlc st" by auto
  have body: "resample_body resample symbol timeframe clk (eng, st) = Inr (eng', st')"
  proof (cases "resample_body resample symbol timeframe clk (eng, st)")
    case (Inl e)
    with assms(1) have "st' = st" by (simp add: resample_cycle_def)
    with ne show ?thesis by simp
  next
    case (Inr s')
    with assms(1) show ?thesis by (simp add: resample_cycle_def)
  qed
  from resample_body_written [OF body ne]
  obtain b d where bd: "get_candle_timestamp (clk_now clk) timeframe = Inr b"
    "od_timestamp d < b" "od_symbol d = symbol" "od_timeframe d = timeframe"
    "insert_ohlc d (clk_commit clk) (db_ohlc st) = Inr (db_ohlc st')"
    by blast
  from insert_ohlc_new_rows [OF bd(5) assms(3,4,2)]
  have "row_key r = data_key d" .
  with bd(1-4) show ?thesis by (simp add: row_key_def data_key_def)
qed


lemma example_cycle_rows:
  "map row_timestamp (db_ohlc (snd (resample_cycle example_frames ''btcusdt'' ''1m''
      example_clock (example_engine, example_storage)))) = [0]"
proof -
  have b: "get_candle_timestamp (clk_now example_clock) ''1m'' = Inr 60000000"
    using get_candle_timestamp_floor [OF parse_timeframe_1m, of 90500000]
    by (simp add: example_clock_def)
  have t: "recent_ticks example_storage example_clock ''btcusdt'' \<noteq> []"
    by (simp add: recent_ticks_def example_storage_def example_clock_def get_recent_ticks_def
        get_ticks_def in_window_def)
  show ?thesis
    using b t
    by (simp add: resample_cycle_def resample_body_def example_frames_def Let_def
        example_engine_def insert_ohlc_def new_row_def, simp add: example_storage_def
        insert_ohlc_def new_row_def)
qed

theorem resample_cycle_complete_only_witness:
  "ohlc_table (db_ohlc example_storage) \<and>
   map row_timestamp (db_ohlc (snd (resample_cycle example_frames ''btcusdt'' ''1m''
      example_clock (example_engine, example_storage)))) = [0] \<and>
   db_ohlc example_storage = [] \<and>
   get_candle_timestamp (clk_now example_clock) ''1m'' = Inr 60000000"
proof -
  let ?s' = "resample_cycle example_frames ''btcusdt'' ''1m'' example_clock
               (example_engine, example_storage)"
  have c: "?s' = (fst ?s', snd ?s')" by simp
  have t: "ohlc_table (db_ohlc example_storage)"
    by (simp add: example_storage_def ohlc_table_def uix_ohlc_def)
  have e: "db_ohlc example_storage = []" by (simp add: example_storage_def)
  from example_cycle_rows obtain r where r: "db_ohlc (snd ?s') = [r]" by auto
  then have i: "r \<in> set (db_ohlc (snd ?s'))" by simp
  have n: "r \<notin> set (db_ohlc example_storage)" using e by simp
  from resample_cycle_complete_only [OF c t i n]
  obtain b where b: "get_candle_timestamp (clk_now example_clock) ''1m'' = Inr b"
    "row_timestamp r < b" by blast
  have "get_candle_timestamp (clk_now example_clock) ''1m'' = Inr 60000000"
    using get_candle_timestamp_floor [OF parse_timeframe_1m, of 90500000]
    by (simp add: example_clock_def)
  with t e example_cycle_rows show ?thesis by simp
qed

section \<open>Properties of the stream client\<close>

lemmas ws_defs = process_message_def normalize_tick_def dict_get_def json_number_def
  py_float_def fromtimestamp_def round_half_even_def datetime_min_def datetime_max_def
  lower_def lower_char_def

lemma example_trade_utc:
  "process_message example_float (\<lambda>t. 0) (Some example_trade) =
     Inr (Some \<lparr>tick_symbol = ''btcusdt'', tick_timestamp = 1700000000000000,
                tick_price = 50000.5, tick_size = 0.001\<rparr>)"
  by (simp add: ws_defs example_trade_def example_float_def)

lemma example_trade_local:
  "process_message example_float (\<lambda>t. 3600000000) (Some example_trade) =
     Inr (Some \<lparr>tick_symbol = ''btcusdt'', tick_timestamp = 1700003600000000,
                tick_price = 50000.5, tick_size = 0.001\<rparr>)"
  by (simp add: ws_defs example_trade_def example_float_def)

lemma process_message_not_trade:
  "dict_get data ''e'' \<noteq> Some (JStr ''trade'') \<Longrightarrow>
   process_message float_of_string utcoffset (Some (JObj data)) = Inr None"
  by (simp add: process_message_def)

lemma fromtimestamp_ms:
  "fromtimestamp utcoffset (of_int ms / 1000) = Inr t \<Longrightarrow> t = ms * 1000 + utcoffset (ms * 1000)"
proof -
  have "(of_int ms / 1000 * 1000000 :: real) = of_int (ms * 1000)" by simp
  then have "round_half_even (of_int ms / 1000 * 1000000) = ms * 1000"
    by (simp only: round_half_even_of_int)
  then show "fromtimestamp utcoffset (of_int ms / 1000) = Inr t \<Longrightarrow> ?thesis"
    by (simp add: fromtimestamp_def Let_def split: if_splits)
qed

lemma normalize_tick_local_time:
  assumes "normalize_tick float_of_string utcoffset raw_data = Inr tick"
    and "dict_get raw_data ''T'' = Some (JInt ms)"
  shows "tick_timestamp tick = ms * 1000 + utcoffset (ms * 1000)"
proof -
  from assms obtain t where t: "fromtimestamp utcoffset (of_int ms / 1000) = Inr t"
    and "tick_timestamp tick = t"
    by (auto simp: normalize_tick_def json_number_def split: sum.splits option.splits json.splits)
  with fromtimestamp_ms [OF t] show ?thesis by simp
qed

lemma remove_symbol_running [simp]:
  "ws_running (remove_symbol c symbol) = ws_running c"
  "connections (remove_symbol c symbol) = connections c"
  "delivered (remove_symbol c symbol) = delivered c"
  by (simp_all add: remove_symbol_def Let_def)

lemma example_remove: "symbols (remove_symbol example_client ''BTCUSDT'') = []"
  by (simp add: remove_symbol_def example_client_def lower_def lower_char_def)

lemma example_step_after_remove:
  "connect_symbol_step example_float (\<lambda>t. 0) ''btcusdt'' (Received (Some example_trade))
     (remove_symbol example_client ''BTCUSDT'', example_task) =
   ((remove_symbol example_client ''BTCUSDT'')
       \<lparr>delivered := [\<lparr>tick_symbol = ''btcusdt'', tick_timestamp = 1700000000000000,
                       tick_price = 50000.5, tick_size = 0.001\<rparr>]\<rparr>, example_task)"
  using example_trade_utc
  by (simp add: connect_symbol_step_def example_task_def Let_def)
     (simp add: example_client_def)

text \<open>
  Claim C4 at a host one hour east of UTC. The trade message with \<open>T = 1700000000000\<close>
  is delivered with the naive local time, one hour after the UTC timestamp of the trade.
\<close>

theorem process_message_local_time:
  "process_message example_float (\<lambda>t. 3600000000) (Some example_trade) =
     Inr (Some \<lparr>tick_symbol = ''btcusdt'', tick_timestamp = 1700003600000000,
                tick_price = 50000.5, tick_size = 0.001\<rparr>) \<and>
   (1700003600000000 :: datetime) \<noteq> 1700000000000 * 1000"
  using example_trade_local by simp

text \<open>
  Claim C5 at a running client that streams \<open>btcusdt\<close>. After \<open>remove_symbol\<close> the symbol
  is no longer tracked, yet the next trade message on its connection is still delivered and
  the task stays in its message loop.
\<close>

theorem remove_symbol_loop_continues:
  "symbols (remove_symbol example_client ''BTCUSDT'') = [] \<and>
   delivered (fst (connect_symbol_step example_float (\<lambda>t. 0) ''btcusdt''
       (Received (Some example_trade)) (remove_symbol example_client ''BTCUSDT'', example_task)))
     = [\<lparr>tick_symbol = ''btcusdt'', tick_timestamp = 1700000000000000,
         tick_price = 50000.5, tick_size = 0.001\<rparr>] \<and>
   task_phase (snd (connect_symbol_step example_float (\<lambda>t. 0) ''btcusdt''
       (Received (Some example_trade)) (remove_symbol example_client ''BTCUSDT'', example_task)))
     = Streaming"
  using example_remove example_step_after_remove by (simp add: example_task_def)

section \<open>Properties of the analytics\<close>

lemma endswith_m: "endswith s ''m'' = (s \<noteq> [] \<and> last s = CHR ''m'')"
proof (cases s rule: rev_cases)
  case Nil
  then show ?thesis by (simp add: endswith_def)
next
  case (snoc ys y)
  then show ?thesis by (auto simp: endswith_def)
qed

lemma periods_per_year_cases:
  "periods_per_year timeframe =
     (if timeframe \<noteq> [] \<and> last timeframe = CHR ''m'' then 365 * 24 * 60 else 365 * 24)"
  by (simp add: periods_per_year_def endswith_m)

lemma periods_per_year_seconds: "periods_per_year ''1s'' = 8760"
  by (simp add: periods_per_year_def endswith_def)

lemma pct_change_not_empty: "xs \<noteq> [] \<Longrightarrow> pct_change xs \<noteq> []"
  by (cases xs) (simp_all add: pct_change_def)

lemma rolling_std_last_returns:
  "0 \<le> window \<Longrightarrow> xs \<noteq> [] \<Longrightarrow> \<exists>v. rolling_std_last window xs = Inr v"
  by (simp add: rolling_std_last_def rolling_last_def Let_def split: option.splits)

lemma compute_volatility_result:
  assumes "ohlc_data = get_ohlc table symbol timeframe (Some (now - 86400000000)) (Some now) 500"
    and "ohlc_data \<noteq> []" and "window \<le> int (length ohlc_data)" and "0 \<le> window"
  shows "\<exists>r. compute_volatility table now symbol timeframe window = Inr r \<and>
           historical_volatility r =
             map_option (\<lambda>s. s * sqrt (real (periods_per_year timeframe)) * 100)
               (series_std (pct_change (map row_close ohlc_data)))"
proof -
  have "pct_change (map row_close ohlc_data) \<noteq> []"
    using assms(2) by (simp add: pct_change_not_empty)
  from rolling_std_last_returns [OF assms(4) this]
  obtain v where "rolling_std_last window (pct_change (map row_close ohlc_data)) = Inr v" ..
  then show ?thesis
    using assms(2,3) by (simp add: compute_volatility_def Let_def assms(1) [symmetric])
qed

lemma four_candles_a:
  "get_ohlc four_candles ''a'' ''1m'' (Some (- 86100000000)) (Some 300000000) n =
     rev (take n [candle ''a'' 4 240000000 16, candle ''a'' 3 180000000 14,
                  candle ''a'' 2 120000000 12, candle ''a'' 1 60000000 10])"
  by (simp add: get_ohlc_def four_candles_def candle_def in_window_def)

lemma four_candles_b:
  "get_ohlc four_candles ''b'' ''1m'' (Some (- 86100000000)) (Some 300000000) n =
     rev (take n [candle ''b'' 8 240000000 26, candle ''b'' 7 180000000 24,
                  candle ''b'' 6 120000000 22, candle ''b'' 5 60000000 20])"
  by (simp add: get_ohlc_def four_candles_def candle_def in_window_def)

lemma second_candles_a:
  "map row_close (get_ohlc second_candles ''a'' ''1s'' (Some (- 86395000000)) (Some 5000000) 500)
     = [10, 12, 14, 16]"
  by (simp add: get_ohlc_def second_candles_def candle_def in_window_def)

text \<open>
  Claim C6 at candles of one second. \<open>1s\<close> is a valid timeframe of one second, yet its
  \<open>periods_per_year\<close> is \<open>365 * 24\<close>, the hours of a year: for four one-second candles
  closing at 10, 12, 14, 16 the historical volatility is the standard deviation of the
  returns times the square root of \<open>365 * 24\<close> times 100.
\<close>

theorem compute_volatility_seconds:
  "parse_timeframe ''1s'' = Inr 1000000 \<and> periods_per_year ''1s'' = 365 * 24 \<and>
   (\<exists>r. compute_volatility second_candles 5000000 ''a'' ''1s'' 3 = Inr r \<and>
        historical_volatility r =
          map_option (\<lambda>s. s * sqrt (365 * 24) * 100) (series_std (pct_change [10, 12, 14, 16])))"
proof -
  let ?d = "get_ohlc second_candles ''a'' ''1s'' (Some (5000000 - 86400000000)) (Some 5000000) 500"
  have c: "map row_close ?d = [10, 12, 14, 16]" using second_candles_a by simp
  from arg_cong [OF this, of length] have "length ?d = 4" by simp
  then have a: "?d \<noteq> []" and b: "(3::int) \<le> int (length ?d)" by auto
  have w: "(0::int) \<le> 3" by simp
  from compute_volatility_result [OF refl a b w]
  obtain r where r: "compute_volatility second_candles 5000000 ''a'' ''1s'' 3 = Inr r"
    "historical_volatility r =
       map_option (\<lambda>s. s * sqrt (real (periods_per_year ''1s'')) * 100)
         (series_std (pct_change (map row_close ?d)))"
    by blast
  from r(2) c have "historical_volatility r =
      map_option (\<lambda>s. s * sqrt (365 * 24) * 100) (series_std (pct_change [10, 12, 14, 16]))"
    by (simp add: periods_per_year_seconds)
  with r(1) parse_timeframe_1s periods_per_year_seconds show ?thesis by simp
qed

lemma four_candles_insufficient:
  "compute_hedge_ratio huber_fit four_candles 300000000 ''a'' ''b'' ''1m'' 100 ''ols'' =
     Inl (Insufficient ''Insufficient data'')"
  by (simp add: compute_hedge_ratio_def Let_def four_candles_a four_candles_b)

lemma four_candles_closes:
  "map row_close (get_ohlc four_candles ''a'' ''1m'' (Some (300000000 - 86400000000))
      (Some 300000000) 100) = [10, 12, 14, 16]"
  "map row_close (get_ohlc four_candles ''b'' ''1m'' (Some (300000000 - 86400000000))
      (Some 300000000) 100) = [20, 22, 24, 26]"
  by (simp_all add: four_candles_a four_candles_b candle_def)

lemma four_candles_ols: "ols_fit [20, 22, 24, 26] [10, 12, 14, 16] = (1, - 10)"
  by (simp add: ols_fit_def mean_def Let_def power2_eq_square)

lemma four_candles_r_squared:
  "r_squared_of [10, 12, 14, 16] (map (\<lambda>x. 1 * x + (- 10)) [20, 22, 24, 26]) = Some 1"
  by (simp add: r_squared_of_def mean_def Let_def power2_eq_square)

text \<open>
  Claim C7, amended. With the closing prices 10, 12, 14, 16 and 20, 22, 24, 26 stored for
  the two instruments, the hedge-ratio computation returns the insufficient-data
  indication, since it asks for ten candles of each. The least-squares line of the first
  series on the second has slope 1, intercept -10 and R-squared 1.
\<close>

theorem compute_hedge_ratio_four_points:
  "compute_hedge_ratio huber_fit four_candles 300000000 ''a'' ''b'' ''1m'' 100 ''ols'' =
     Inl (Insufficient ''Insufficient data'') \<and>
   map row_close (get_ohlc four_candles ''a'' ''1m'' (Some (300000000 - 86400000000))
      (Some 300000000) 100) = [10, 12, 14, 16] \<and>
   map row_close (get_ohlc four_candles ''b'' ''1m'' (Some (300000000 - 86400000000))
      (Some 300000000) 100) = [20, 22, 24, 26] \<and>
   ols_fit [20, 22, 24, 26] [10, 12, 14, 16] = (1, - 10) \<and>
   r_squared_of [10, 12, 14, 16] (map (\<lambda>x. 1 * x + (- 10)) [20, 22, 24, 26]) = Some 1"
  using four_candles_insufficient four_candles_closes four_candles_ols four_candles_r_squared
  by blast

text \<open>Claim C7 as stated fails: on these series no result record is returned.\<close>

theorem compute_hedge_ratio_counterexample:
  "compute_hedge_ratio huber_unavailable four_candles 300000000 ''a'' ''b'' ''1m'' 100 ''ols'' =
     Inl (Insufficient ''Insufficient data'')"
  by (rule four_candles_insufficient)

section \<open>Properties of the tick-based spread\<close>

lemma zscore_guarded:
  "\<exists>z. zscore current mean_opt std_opt = Inr z \<and>
       (\<not> (\<exists>s. std_opt = Some s \<and> 0 < s) \<longrightarrow> z = Some 0)"
  by (cases std_opt; cases mean_opt) (auto simp: zscore_def truediv_def)

lemma rolling_last_returns:
  "0 \<le> window \<Longrightarrow> xs \<noteq> [] \<Longrightarrow> \<exists>v. rolling_last window xs = Inr v"
  by (simp add: rolling_last_def Let_def)

lemma rolling_mean_last_returns:
  "0 \<le> window \<Longrightarrow> xs \<noteq> [] \<Longrightarrow> \<exists>v. rolling_mean_last window xs = Inr v"
  by (simp add: rolling_mean_last_def rolling_last_def Let_def split: option.splits)

lemma compute_spread_from_ticks_guarded:
  assumes "1 \<le> window"
    and "window \<le> int (length (get_ticks table symbol1 None None tick_count))"
    and "window \<le> int (length (get_ticks table symbol2 None None tick_count))"
    and "window \<le> int (length (aligned_ticks table symbol1 symbol2 tick_count))"
  shows "\<exists>r. compute_spread_from_ticks table symbol1 symbol2 tick_count window = Inr r \<and>
           (\<not> (\<exists>s. spread_std r = Some s \<and> 0 < s) \<longrightarrow> current_zscore r = Some 0)"
proof -
  let ?merged = "aligned_ticks table symbol1 symbol2 tick_count"
  let ?fit = "ols_fit (map (\<lambda>(t, p1, p2). p2) ?merged) (map (\<lambda>(t, p1, p2). p1) ?merged)"
  let ?spread = "map (\<lambda>(t, p1, p2). p1 - fst ?fit * p2) ?merged"
  from assms have ne: "get_ticks table symbol1 None None tick_count \<noteq> []"
    "get_ticks table symbol2 None None tick_count \<noteq> []" "?merged \<noteq> []"
    by auto
  then have sne: "map Some ?spread \<noteq> []" by simp
  have w: "0 \<le> window" using assms(1) by simp
  from rolling_mean_last_returns [OF w sne]
  obtain m where m: "rolling_mean_last window (map Some ?spread) = Inr m" ..
  from rolling_std_last_returns [OF w sne]
  obtain sd where sd: "rolling_std_last window (map Some ?spread) = Inr sd" ..
  from zscore_guarded [of "last ?spread" m sd]
  obtain z where z: "zscore (last ?spread) m sd = Inr z"
    "\<not> (\<exists>s. sd = Some s \<and> 0 < s) \<longrightarrow> z = Some 0" by blast
  show ?thesis
    using ne assms(2,3,4) m sd z
    by (simp add: compute_spread_from_ticks_def Let_def)
qed


lemma six_ticks_a:
  "get_ticks six_ticks ''a'' None None 10 =
     [tick_of ''a'' 1000000 1, tick_of ''a'' 2000000 2, tick_of ''a'' 3000000 3]"
  by (simp add: get_ticks_def six_ticks_def tick_of_def in_window_def)

lemma six_ticks_b:
  "get_ticks six_ticks ''b'' None None 10 =
     [tick_of ''b'' 1000000 2, tick_of ''b'' 2000000 4, tick_of ''b'' 3000000 6]"
  by (simp add: get_ticks_def six_ticks_def tick_of_def in_window_def)

lemma six_ticks_aligned:
  "aligned_ticks six_ticks ''a'' ''b'' 10 = [(1000000, 1, 2), (2000000, 2, 4), (3000000, 3, 6)]"
  by (simp add: aligned_ticks_def six_ticks_a six_ticks_b Let_def)
     (simp add: merge_asof_def List.map_filter_def nearest_match_def tick_of_def Let_def)

lemma six_ticks_fit: "ols_fit [2, 4, 6] [1, 2, 3] = (1 / 2, 0)"
  by (simp add: ols_fit_def mean_def Let_def power2_eq_square)

lemma six_ticks_std: "rolling_std_last 2 [Some 0, Some 0, Some 0] = Inr (Some 0)"
  by (simp add: rolling_std_last_def rolling_last_def sample_std_def mean_def Let_def)

lemma six_ticks_mean: "rolling_mean_last 2 [Some 0, Some 0, Some 0] = Inr (Some 0)"
  by (simp add: rolling_mean_last_def rolling_last_def mean_def Let_def)

lemma six_ticks_spread_std:
  "\<exists>r. compute_spread_from_ticks six_ticks ''a'' ''b'' 10 2 = Inr r \<and> spread_std r = Some 0"
  by (simp add: compute_spread_from_ticks_def Let_def six_ticks_a six_ticks_b
      six_ticks_aligned six_ticks_fit six_ticks_std six_ticks_mean zscore_def)

lemma rolling_last_error:
  "rolling_last window xs = Inl e \<Longrightarrow> e \<noteq> ZeroDivisionError"
  by (auto simp: rolling_last_def Let_def split: if_splits)

lemma rolling_mean_last_error:
  "rolling_mean_last window xs = Inl e \<Longrightarrow> e \<noteq> ZeroDivisionError"
  using rolling_last_error [of window xs]
  by (auto simp: rolling_mean_last_def split: sum.splits option.splits)

lemma rolling_std_last_error:
  "rolling_std_last window xs = Inl e \<Longrightarrow> e \<noteq> ZeroDivisionError"
  using rolling_last_error [of window xs]
  by (auto simp: rolling_std_last_def split: sum.splits option.splits)

lemma zscore_returns: "zscore current mean_opt std_opt \<noteq> Inl e"
  using zscore_guarded [of current mean_opt std_opt] by auto

lemma compute_spread_from_ticks_no_zero_division:
  "compute_spread_from_ticks table symbol1 symbol2 tick_count window
     \<noteq> Inl (Failed ZeroDivisionError)"
  using rolling_mean_last_error rolling_std_last_error zscore_returns
  by (auto simp: compute_spread_from_ticks_def Let_def split: sum.splits)

text \<open>
  Claim C10. The tick-based spread computation never ends in a division by zero. For a
  window of at least one tick, whenever each instrument has at least \<open>window\<close> ticks
  and at least \<open>window\<close> of them align, it returns a result record; and when the rolling
  standard deviation at the latest point is not positive (zero, or \<open>NaN\<close>), the record
  has \<open>current_zscore = 0.0\<close>.
\<close>

theorem compute_spread_from_ticks_zero_std:
  "compute_spread_from_ticks table symbol1 symbol2 tick_count window
     \<noteq> Inl (Failed ZeroDivisionError) \<and>
   (1 \<le> window \<and>
    window \<le> int (length (get_ticks table symbol1 None None tick_count)) \<and>
    window \<le> int (length (get_ticks table symbol2 None None tick_count)) \<and>
    window \<le> int (length (aligned_ticks table symbol1 symbol2 tick_count)) \<longrightarrow>
    (\<exists>r. compute_spread_from_ticks table symbol1 symbol2 tick_count window = Inr r \<and>
         (\<not> (\<exists>s. spread_std r = Some s \<and> 0 < s) \<longrightarrow> current_zscore r = Some 0)))"
  using compute_spread_from_ticks_no_zero_division [of table symbol1 symbol2 tick_count window]
    compute_spread_from_ticks_guarded [of window table symbol1 tick_count symbol2]
  by blast

theorem compute_spread_from_ticks_zero_std_witness:
  "(1::int) \<le> 2 \<and>
   2 \<le> int (length (get_ticks six_ticks ''a'' None None 10)) \<and>
   2 \<le> int (length (get_ticks six_ticks ''b'' None None 10)) \<and>
   2 \<le> int (length (aligned_ticks six_ticks ''a'' ''b'' 10)) \<and>
   (\<exists>r. compute_spread_from_ticks six_ticks ''a'' ''b'' 10 2 = Inr r \<and>
        spread_std r = Some 0 \<and> current_zscore r = Some 0)"
proof -
  have a: "(1::int) \<le> 2" by simp
  have b: "2 \<le> int (length (get_ticks six_ticks ''a'' None None 10))"
    by (simp add: six_ticks_a)
  have c: "2 \<le> int (length (get_ticks six_ticks ''b'' None None 10))"
    by (simp add: six_ticks_b)
  have d: "2 \<le> int (length (aligned_ticks six_ticks ''a'' ''b'' 10))"
    by (simp add: six_ticks_aligned)
  from compute_spread_from_ticks_zero_std [of six_ticks "''a''" "''b''" 10 2] a b c d
  obtain r where r: "compute_spread_from_ticks six_ticks ''a'' ''b'' 10 2 = Inr r"
    "\<not> (\<exists>s. spread_std r = Some s \<and> 0 < s) \<longrightarrow> current_zscore r = Some 0" by blast
  from six_ticks_spread_std r(1) have "spread_std r = Some 0" by auto
  with r have "spread_std r = Some 0 \<and> current_zscore r = Some 0" by simp
  with a b c d r(1) show ?thesis by blast
qed

end
